theory Spec2Isabelle
  imports Main "HOL-Library.Multiset"
begin

section \<open>JavaScript values, strings and thrown errors\<close>

text \<open>
  Strings are lists of 8-bit characters. The model is exact for ASCII text; a byte above
  127 is carried through \<open>toLowerCase\<close>, \<open>toUpperCase\<close> and \<open>trim\<close> unchanged.

  A value that the code reads from a slot, a queue message or an object property is a
  \<open>jsval\<close>: \<open>Undefined\<close>, \<open>Null\<close>, a string, or \<open>Inherited p\<close>, the (truthy) member
  \<open>p\<close> that every object literal inherits from \<open>Object.prototype\<close>.
\<close>

datatype jsval = Undefined | Null | Str string | Inherited string

text \<open>A thrown \<open>Error\<close> object with its \<open>message\<close>.\<close>

datatype exn = Error (error_message: string)

fun truthy :: "jsval \<Rightarrow> bool" where
  "truthy Undefined = False"
| "truthy Null = False"
| "truthy (Str s) = (s \<noteq> [])"
| "truthy (Inherited p) = True"

text \<open>\<open>a || b\<close>\<close>

definition js_or :: "jsval \<Rightarrow> jsval \<Rightarrow> jsval" where
  "js_or a b = (if truthy a then a else b)"

text \<open>A value interpolated into a template literal, \<open>`${v}`\<close>.\<close>

fun template :: "jsval \<Rightarrow> string" where
  "template Undefined = ''undefined''"
| "template Null = ''null''"
| "template (Str s) = s"
| "template (Inherited p) =
     (if p = ''constructor'' then ''function Object() { [native code] }''
      else if p = ''__proto__'' then ''[object Object]''
      else ''function '' @ p @ ''() { [native code] }'')"

definition is_upper :: "char \<Rightarrow> bool" where
  "is_upper c = (65 \<le> (of_char c :: nat) \<and> (of_char c :: nat) \<le> 90)"

definition is_lower :: "char \<Rightarrow> bool" where
  "is_lower c = (97 \<le> (of_char c :: nat) \<and> (of_char c :: nat) \<le> 122)"

definition is_digit :: "char \<Rightarrow> bool" where
  "is_digit c = (48 \<le> (of_char c :: nat) \<and> (of_char c :: nat) \<le> 57)"

text \<open>The ASCII members of JavaScript's white space and line terminators (\<open>\s\<close>).\<close>

definition is_space :: "char \<Rightarrow> bool" where
  "is_space c = ((of_char c :: nat) \<in> {9, 10, 11, 12, 13, 32})"

definition lower_char :: "char \<Rightarrow> char" where
  "lower_char c = (if is_upper c then char_of ((of_char c :: nat) + 32) else c)"

definition upper_char :: "char \<Rightarrow> char" where
  "upper_char c = (if is_lower c then char_of ((of_char c :: nat) - 32) else c)"

definition toLowerCase :: "string \<Rightarrow> string" where
  "toLowerCase s = map lower_char s"

definition toUpperCase :: "string \<Rightarrow> string" where
  "toUpperCase s = map upper_char s"

definition trim :: "string \<Rightarrow> string" where
  "trim s = rev (dropWhile is_space (rev (dropWhile is_space s)))"

text \<open>\<open>s.charAt(0)\<close> and \<open>s.slice(1)\<close>\<close>

definition charAt0 :: "string \<Rightarrow> string" where
  "charAt0 s = take 1 s"

definition slice1 :: "string \<Rightarrow> string" where
  "slice1 s = drop 1 s"

text \<open>\<open>xs.join(sep)\<close> on an array of strings\<close>

fun join :: "string \<Rightarrow> string list \<Rightarrow> string" where
  "join sep [] = []"
| "join sep [x] = x"
| "join sep (x # y # ys) = x @ sep @ join sep (y # ys)"

text \<open>Decimal rendering of a number, as \<open>String(n)\<close> and \<open>`${n}`\<close> give it.\<close>

definition digit_char :: "nat \<Rightarrow> char" where
  "digit_char d = char_of (48 + d)"

fun show_nat :: "nat \<Rightarrow> string" where
  "show_nat n = (if n < 10 then [digit_char n] else show_nat (n div 10) @ [digit_char (n mod 10)])"

declare show_nat.simps [simp del]

definition show_int :: "int \<Rightarrow> string" where
  "show_int i = (if i < 0 then CHR ''-'' # show_nat (nat (- i)) else show_nat (nat i))"

text \<open>A \<open>process.env\<close> entry is a string or undefined; \<open>!v\<close> holds for undefined and \<open>""\<close>.\<close>

definition env_unset :: "string option \<Rightarrow> bool" where
  "env_unset v = (v = None \<or> v = Some [])"

section \<open>Calls to external services\<close>

text \<open>
  Every awaited call to a collaborator (queue, search index, record store, mailer) either
  returns or throws. What it does is fixed by the world the handler runs in; the handler's
  run records, in order, the commands it issued.
\<close>

record messageBody =
  Location :: jsval
  Cuisine :: jsval
  NumberOfPeople :: jsval
  DiningDate :: jsval
  DiningTime :: jsval
  Email :: jsval

record sqs_message =
  Body :: string
  ReceiptHandle :: string

record search_query =
  query_size :: nat
  match_Cuisine :: string

text \<open>A DynamoDB item of table \<open>yelp-restaurants\<close>: the \<open>S\<close> or \<open>N\<close> text of each attribute
  that is present.\<close>

record restaurant_item =
  item_Name :: "string option"
  item_Address :: "string option"
  item_Rating :: "string option"
  item_NumberOfReviews :: "string option"
  item_ZipCode :: "string option"

record restaurant =
  name :: string
  address :: string
  rating :: jsval
  numberOfReviews :: jsval
  zipCode :: jsval

record send_email =
  Source :: string
  ToAddresses :: "jsval list"
  Subject_Data :: string
  Text_Data :: string
  Html_Data :: string

text \<open>The item LF1 writes to table \<open>user-state\<close>: the \<open>S\<close> value of each attribute.\<close>

record user_state_item =
  us_Email :: jsval
  us_Location :: jsval
  us_Cuisine :: jsval
  us_NumberOfPeople :: jsval
  us_DiningDate :: jsval
  us_DiningTime :: jsval
  us_LastSearchTimestamp :: string

text \<open>\<open>SendMessage url b\<close> carries \<open>MessageBody = JSON.stringify(b)\<close>.\<close>

datatype call =
    ReceiveMessage string
  | DeleteMessage string string
  | OpenSearchRequest search_query
  | GetItem string
  | SendEmail send_email
  | SendMessage string messageBody
  | PutItem user_state_item

type_synonym 'a io = "(exn + 'a) \<times> call list"

definition ret :: "'a \<Rightarrow> 'a io" where
  "ret x = (Inr x, [])"

definition throw :: "exn \<Rightarrow> 'a io" where
  "throw e = (Inl e, [])"

text \<open>\<open>await client.send(cmd)\<close>: the command is issued and its outcome is the world's.\<close>

definition issue :: "call \<Rightarrow> exn + 'a \<Rightarrow> 'a io" where
  "issue c outcome = (outcome, [c])"

text \<open>Sequencing: a throw skips the rest, the commands issued so far stay issued.\<close>

definition io_bind :: "'a io \<Rightarrow> ('a \<Rightarrow> 'b io) \<Rightarrow> 'b io" where
  "io_bind m f =
     (case m of
        (Inl e, tr) \<Rightarrow> (Inl e, tr)
      | (Inr x, tr) \<Rightarrow> (case f x of (r, tr') \<Rightarrow> (r, tr @ tr')))"

text \<open>\<open>try { m } catch (e) { h(e) }\<close>\<close>

definition try_catch :: "'a io \<Rightarrow> (exn \<Rightarrow> 'a io) \<Rightarrow> 'a io" where
  "try_catch m h =
     (case m of
        (Inl e, tr) \<Rightarrow> (case h e of (r, tr') \<Rightarrow> (r, tr @ tr'))
      | (Inr x, tr) \<Rightarrow> (Inr x, tr))"

text \<open>
  \<open>await Promise.all(xs.map(f))\<close>: every call is started, so every command is issued; the
  result is the list of values, or a throw if some call threw (the first in list order is
  taken as the one reported).
\<close>

fun promise_all :: "'a io list \<Rightarrow> 'a list io" where
  "promise_all [] = (Inr [], [])"
| "promise_all (m # ms) =
     (case (m, promise_all ms) of
        ((Inl e, tr), (_, tr')) \<Rightarrow> (Inl e, tr @ tr')
      | ((Inr x, tr), (Inl e, tr')) \<Rightarrow> (Inl e, tr @ tr')
      | ((Inr x, tr), (Inr xs, tr')) \<Rightarrow> (Inr (x # xs), tr @ tr'))"

section \<open>LF2: the queue worker\<close>

text \<open>
  The world of one invocation: the environment variables, the outcome of each external
  call, and \<open>sort_order n\<close>, the order in which
  \<open>[...array].sort(() => 0.5 - Math.random())\<close> leaves the positions \<open>0..n-1\<close> of an
  array of length \<open>n\<close> (the comparator ignores the elements, so the outcome depends on
  the length and the random draws only).
\<close>

record lf2_world =
  SQS_QUEUE_URL :: "string option"
  OPENSEARCH_ENDPOINT :: "string option"
  SES_SENDER_EMAIL :: "string option"
  sqs_receive :: "exn + sqs_message list option"
  JSON_parse :: "string \<Rightarrow> exn + messageBody"
  opensearch :: "search_query \<Rightarrow> exn + string list option"
  dynamo_get :: "string \<Rightarrow> exn + restaurant_item option"
  ses_send :: "send_email \<Rightarrow> exn + unit"
  sqs_delete :: "string \<Rightarrow> exn + unit"
  sort_order :: "nat \<Rightarrow> nat list"

record lf2_result =
  statusCode :: nat
  body :: string

text \<open>
  \<open>searchOpenSearch\<close>. Building the URL, the HTTP round trip and the parsing of the
  response are one external call, recorded as \<open>OpenSearchRequest\<close>: it throws (bad URL,
  network error, status outside 2xx, malformed JSON, a hit without \<open>_source\<close>), or
  returns \<open>None\<close> when \<open>result.hits\<close> or \<open>result.hits.hits\<close> is missing, or the
  \<open>RestaurantID\<close> of each hit.
\<close>

definition searchOpenSearch :: "lf2_world \<Rightarrow> jsval \<Rightarrow> string list io" where
  "searchOpenSearch w cuisine =
     (if env_unset (OPENSEARCH_ENDPOINT w) then throw (Error ''OPENSEARCH_ENDPOINT not configured'')
      else case cuisine of
        Str c \<Rightarrow>
          (let query = \<lparr>query_size = 50, match_Cuisine = toLowerCase c\<rparr>
           in io_bind (issue (OpenSearchRequest query) (opensearch w query))
                (\<lambda>hits. case hits of None \<Rightarrow> ret [] | Some ids \<Rightarrow> ret ids))
      | Undefined \<Rightarrow> throw (Error ''Cannot read properties of undefined (reading 'toLowerCase')'')
      | Null \<Rightarrow> throw (Error ''Cannot read properties of null (reading 'toLowerCase')'')
      | Inherited p \<Rightarrow> throw (Error ''cuisine.toLowerCase is not a function''))"

text \<open>\<open>attr?.S || dflt\<close>\<close>

definition attr_or :: "string option \<Rightarrow> string \<Rightarrow> string" where
  "attr_or a dflt = (case a of None \<Rightarrow> dflt | Some s \<Rightarrow> if s = [] then dflt else s)"

definition getRestaurantFromDynamoDB :: "lf2_world \<Rightarrow> string \<Rightarrow> restaurant io" where
  "getRestaurantFromDynamoDB w businessId =
     io_bind (issue (GetItem businessId) (dynamo_get w businessId))
       (\<lambda>result. case result of
          None \<Rightarrow> ret \<lparr>name = ''Unknown Restaurant'', address = ''Address not available'',
                       rating = Undefined, numberOfReviews = Undefined, zipCode = Undefined\<rparr>
        | Some item \<Rightarrow>
            ret \<lparr>name = attr_or (item_Name item) ''Unknown Restaurant'',
                 address = attr_or (item_Address item) ''Address not available'',
                 rating = Str (attr_or (item_Rating item) ''N/A''),
                 numberOfReviews = Str (attr_or (item_NumberOfReviews item) ''N/A''),
                 zipCode = Str (attr_or (item_ZipCode item) [])\<rparr>)"

definition restaurantList :: "restaurant list \<Rightarrow> string" where
  "restaurantList restaurants =
     join [CHR 0x0A]
       (map (\<lambda>(i, r). show_nat (i + 1) @ ''. '' @ name r @ '', located at '' @ address r)
            (enumerate 0 restaurants))"

definition emailBody :: "jsval \<Rightarrow> jsval \<Rightarrow> jsval \<Rightarrow> jsval \<Rightarrow> restaurant list \<Rightarrow> string" where
  "emailBody cuisine numberOfPeople diningDate diningTime restaurants =
     ''Hello! Here are my '' @ template cuisine @ '' restaurant suggestions for ''
     @ template numberOfPeople @ '' people, for '' @ template diningDate @ '' at ''
     @ template diningTime @ '':'' @ [CHR 0x0A, CHR 0x0A] @ restaurantList restaurants
     @ [CHR 0x0A, CHR 0x0A] @ ''Enjoy your meal!''"

definition emailHtml :: "jsval \<Rightarrow> jsval \<Rightarrow> jsval \<Rightarrow> jsval \<Rightarrow> restaurant list \<Rightarrow> string" where
  "emailHtml cuisine numberOfPeople diningDate diningTime restaurants =
     [CHR 0x0A] @ ''    <html>'' @ [CHR 0x0A] @ ''      <body>'' @ [CHR 0x0A]
     @ ''        <p>Hello!</p>'' @ [CHR 0x0A]
     @ ''        <p>Here are my <strong>'' @ template cuisine
     @ ''</strong> restaurant suggestions for <strong>'' @ template numberOfPeople
     @ ''</strong> people, for <strong>'' @ template diningDate
     @ ''</strong> at <strong>'' @ template diningTime @ ''</strong>:</p>'' @ [CHR 0x0A]
     @ ''        <ol>'' @ [CHR 0x0A]
     @ ''          ''
     @ join []
         (map (\<lambda>r. ''<li><strong>'' @ name r @ ''</strong>, located at '' @ address r
                   @ '' (Rating: '' @ template (rating r) @ ''/5, ''
                   @ template (numberOfReviews r) @ '' reviews)</li>'') restaurants)
     @ [CHR 0x0A]
     @ ''        </ol>'' @ [CHR 0x0A]
     @ ''        <p>Enjoy your meal!</p>'' @ [CHR 0x0A]
     @ ''      </body>'' @ [CHR 0x0A]
     @ ''    </html>'' @ [CHR 0x0A] @ ''  ''"

definition sendEmailViaSES ::
  "lf2_world \<Rightarrow> jsval \<Rightarrow> jsval \<Rightarrow> jsval \<Rightarrow> jsval \<Rightarrow> jsval \<Rightarrow> restaurant list \<Rightarrow> unit io" where
  "sendEmailViaSES w recipientEmail cuisine numberOfPeople diningDate diningTime restaurants =
     (case SES_SENDER_EMAIL w of
        None \<Rightarrow> throw (Error ''SES_SENDER_EMAIL not configured'')
      | Some senderEmail \<Rightarrow>
          if senderEmail = [] then throw (Error ''SES_SENDER_EMAIL not configured'')
          else
            (let cmd = \<lparr>Source = senderEmail,
                        ToAddresses = [recipientEmail],
                        Subject_Data = ''Your '' @ template cuisine @ '' Restaurant Suggestions'',
                        Text_Data = emailBody cuisine numberOfPeople diningDate diningTime restaurants,
                        Html_Data = emailHtml cuisine numberOfPeople diningDate diningTime restaurants\<rparr>
             in issue (SendEmail cmd) (ses_send w cmd)))"

definition deleteSQSMessage :: "lf2_world \<Rightarrow> string \<Rightarrow> string \<Rightarrow> unit io" where
  "deleteSQSMessage w queueUrl receiptHandle =
     issue (DeleteMessage queueUrl receiptHandle) (sqs_delete w receiptHandle)"

text \<open>
  \<open>getRandomItems\<close>: the shuffled copy holds, at each place, the element of the position
  that the sort put there; the first \<open>min(n, length)\<close> of them are returned.
\<close>

definition shuffled_positions :: "lf2_world \<Rightarrow> 'a list \<Rightarrow> nat list" where
  "shuffled_positions w array = sort_order w (length array)"

definition getRandomItems :: "lf2_world \<Rightarrow> 'a list \<Rightarrow> nat \<Rightarrow> 'a list" where
  "getRandomItems w array n =
     (let shuffled = map (\<lambda>i. array ! i) (shuffled_positions w array)
      in take (min n (length shuffled)) shuffled)"

text \<open>The positions of the hit list that \<open>getRandomItems\<close> returns, in order.\<close>

definition selected_positions :: "lf2_world \<Rightarrow> 'a list \<Rightarrow> nat \<Rightarrow> nat list" where
  "selected_positions w array n = take (min n (length array)) (shuffled_positions w array)"

text \<open>The body of the handler's outer \<open>try\<close>.\<close>

definition lf2_try :: "lf2_world \<Rightarrow> string \<Rightarrow> lf2_result io" where
  "lf2_try w sqsQueueUrl =
     io_bind (issue (ReceiveMessage sqsQueueUrl) (sqs_receive w))
       (\<lambda>Messages. case Messages of
          None \<Rightarrow> ret \<lparr>statusCode = 200, body = ''No messages to process''\<rparr>
        | Some [] \<Rightarrow> ret \<lparr>statusCode = 200, body = ''No messages to process''\<rparr>
        | Some (message # _) \<Rightarrow>
            io_bind (case JSON_parse w (Body message) of Inl e \<Rightarrow> throw e | Inr b \<Rightarrow> ret b)
              (\<lambda>messageBody.
                 io_bind (searchOpenSearch w (Cuisine messageBody))
                   (\<lambda>restaurantIds.
                      if length restaurantIds = 0 then
                        io_bind (deleteSQSMessage w sqsQueueUrl (ReceiptHandle message))
                          (\<lambda>_. ret \<lparr>statusCode = 200, body = ''No restaurants found''\<rparr>)
                      else
                        (let selectedIds = getRandomItems w restaurantIds 3 in
                         io_bind (promise_all (map (getRestaurantFromDynamoDB w) selectedIds))
                           (\<lambda>restaurants.
                              io_bind
                                (try_catch
                                   (sendEmailViaSES w (Email messageBody) (Cuisine messageBody)
                                      (NumberOfPeople messageBody) (DiningDate messageBody)
                                      (DiningTime messageBody) restaurants)
                                   (\<lambda>emailError. ret ()))
                                (\<lambda>_. io_bind
                                        (deleteSQSMessage w sqsQueueUrl (ReceiptHandle message))
                                        (\<lambda>_. ret \<lparr>statusCode = 200,
                                                   body = ''Message processed''\<rparr>)))))))"

text \<open>The handler of LF2: its result, and the commands it issued, in order.\<close>

definition lf2_handler :: "lf2_world \<Rightarrow> lf2_result \<times> call list" where
  "lf2_handler w =
     (case SQS_QUEUE_URL w of
        None \<Rightarrow> (\<lparr>statusCode = 500, body = ''SQS_QUEUE_URL not configured''\<rparr>, [])
      | Some sqsQueueUrl \<Rightarrow>
          if sqsQueueUrl = [] then
            (\<lparr>statusCode = 500, body = ''SQS_QUEUE_URL not configured''\<rparr>, [])
          else
            (case lf2_try w sqsQueueUrl of
               (Inl error, tr) \<Rightarrow> (\<lparr>statusCode = 500, body = error_message error\<rparr>, tr)
             | (Inr r, tr) \<Rightarrow> (r, tr)))"


section \<open>Dates\<close>

text \<open>
  A \<open>Date\<close> holds a time value: milliseconds since the epoch, UTC. Its local fields
  (\<open>getHours\<close>, \<open>setHours\<close>, \<open>getDate\<close>, \<open>setDate\<close>) are read and written in the time zone
  of the runtime; \<open>toISOString\<close> reads UTC fields.

  The time zone is the function \<open>LocalTZA\<close> of the language: \<open>z t True\<close> is the offset
  \<open>local - UTC\<close>, in milliseconds, in force at the instant \<open>t\<close>, and \<open>z lt False\<close> the
  offset by which the local time value \<open>lt\<close> is read (at a clock change the runtime
  decides which). \<open>LocalTime\<close> and \<open>UTC\<close> convert between the two.
\<close>

type_synonym zone = "int \<Rightarrow> bool \<Rightarrow> int"

definition msPerMinute :: int where "msPerMinute = 60000"
definition msPerHour :: int where "msPerHour = 3600000"
definition msPerDay :: int where "msPerDay = 86400000"

definition LocalTime :: "zone \<Rightarrow> int \<Rightarrow> int" where
  "LocalTime z t = t + z t True"

definition UTC :: "zone \<Rightarrow> int \<Rightarrow> int" where
  "UTC z lt = lt - z lt False"

text \<open>\<open>d.setHours(0, 0, 0, 0)\<close>: the local day of \<open>t\<close> is kept, the time within the day
  is set to zero, and the local time value is converted back.\<close>

definition setHours0 :: "zone \<Rightarrow> int \<Rightarrow> int" where
  "setHours0 z t = UTC z (LocalTime z t div msPerDay * msPerDay)"

definition getHours :: "zone \<Rightarrow> int \<Rightarrow> int" where
  "getHours z t = (LocalTime z t mod msPerDay) div msPerHour"

definition getMinutes :: "zone \<Rightarrow> int \<Rightarrow> int" where
  "getMinutes z t = (LocalTime z t mod msPerHour) div msPerMinute"

text \<open>\<open>d.setDate(d.getDate() + n)\<close>: the day of the month of the local time is moved on
  by \<open>n\<close>, which moves the local day by \<open>n\<close> and keeps the local time within the day; the
  local time value is converted back.\<close>

definition setDate_plus :: "zone \<Rightarrow> int \<Rightarrow> int \<Rightarrow> int" where
  "setDate_plus z t n = UTC z (LocalTime z t + n * msPerDay)"

text \<open>The local calendar day of \<open>t\<close>, and the time value of local midnight of a day, both
  counted in days since 1970-01-01.\<close>

definition localDay :: "zone \<Rightarrow> int \<Rightarrow> int" where
  "localDay z t = LocalTime z t div msPerDay"

definition localMidnight :: "zone \<Rightarrow> int \<Rightarrow> int" where
  "localMidnight z day = UTC z (day * msPerDay)"

text \<open>
  A zone keeps its local days in order when a local time of day \<open>D\<close> is read as an
  instant from local midnight of \<open>D\<close> up to, and not including, local midnight of
  \<open>D + 1\<close>, and every such instant shows a local time of day \<open>D\<close>. A fixed offset does,
  and so does a zone whose clock changes by an hour in the small hours.
\<close>

definition zone_days :: "zone \<Rightarrow> bool" where
  "zone_days z \<longleftrightarrow>
     (\<forall>D lt. D * msPerDay \<le> lt \<and> lt < (D + 1) * msPerDay \<longrightarrow>
        localMidnight z D \<le> UTC z lt \<and> UTC z lt < localMidnight z (D + 1))
     \<and> (\<forall>D t. localMidnight z D \<le> t \<and> t < localMidnight z (D + 1) \<longrightarrow>
        D * msPerDay \<le> LocalTime z t \<and> LocalTime z t < (D + 1) * msPerDay)"

text \<open>Year, month and day of the month of a day number (proleptic Gregorian calendar).\<close>

definition civil_from_days :: "int \<Rightarrow> int \<times> int \<times> int" where
  "civil_from_days days =
     (let z = days + 719468;
          era = z div 146097;
          doe = z mod 146097;
          yoe = (doe - doe div 1460 + doe div 36524 - doe div 146096) div 365;
          doy = doe - (365 * yoe + yoe div 4 - yoe div 100);
          mp = (5 * doy + 2) div 153;
          d = doy - (153 * mp + 2) div 5 + 1;
          m = (if mp < 10 then mp + 3 else mp - 9);
          y = yoe + era * 400 + (if m \<le> 2 then 1 else 0)
      in (y, m, d))"

definition pad :: "nat \<Rightarrow> int \<Rightarrow> string" where
  "pad width v = (let s = show_nat (nat v) in replicate (width - length s) CHR ''0'' @ s)"

definition iso_year :: "int \<Rightarrow> string" where
  "iso_year y =
     (if 0 \<le> y \<and> y \<le> 9999 then pad 4 y
      else if y < 0 then CHR ''-'' # pad 6 (- y) else CHR ''+'' # pad 6 y)"

definition toISOString :: "int \<Rightarrow> string" where
  "toISOString t =
     (case civil_from_days (t div msPerDay) of
        (y, m, d) \<Rightarrow>
          iso_year y @ ''-'' @ pad 2 m @ ''-'' @ pad 2 d @ ''T''
          @ pad 2 ((t mod msPerDay) div msPerHour) @ '':''
          @ pad 2 ((t mod msPerHour) div msPerMinute) @ '':''
          @ pad 2 ((t mod msPerMinute) div 1000) @ ''.''
          @ pad 3 (t mod 1000) @ ''Z'')"

text \<open>\<open>s.split(sep)\<close> for a one-character separator\<close>

fun split :: "char \<Rightarrow> string \<Rightarrow> string list" where
  "split sep [] = [[]]"
| "split sep (c # cs) =
     (if c = sep then [] # split sep cs
      else (let r = split sep cs in (c # hd r) # tl r))"

text \<open>\<open>Number(s)\<close> and the digits part of \<open>parseInt(s, 10)\<close>, on a string of decimal digits\<close>

definition digits_value :: "string \<Rightarrow> nat" where
  "digits_value s = foldl (\<lambda>acc c. 10 * acc + (of_char c - 48)) 0 s"

text \<open>
  \<open>parseInt(s, 10)\<close>: leading white space is skipped, a sign is read, then the longest
  run of decimal digits; \<open>None\<close> is \<open>NaN\<close>.
\<close>

definition parseInt :: "string \<Rightarrow> int option" where
  "parseInt s =
     (let s1 = dropWhile is_space s;
          neg = (s1 \<noteq> [] \<and> hd s1 = CHR ''-'');
          s2 = (if s1 \<noteq> [] \<and> (hd s1 = CHR ''-'' \<or> hd s1 = CHR ''+'') then tl s1 else s1);
          ds = takeWhile is_digit s2
      in if ds = [] then None
         else Some (if neg then - int (digits_value ds) else int (digits_value ds)))"

section \<open>LF1: the dialog code hook\<close>

text \<open>
  A slot of the Lex event is \<open>null\<close> or an object whose \<open>value\<close>, when present, holds the
  interpreted and the original text. A nullable string is a \<open>string option\<close>.
\<close>

record slot_value =
  interpretedValue :: "string option"
  originalValue :: "string option"

datatype slot = NullSlot | Slot "slot_value option"

type_synonym slots = "string \<rightharpoonup> slot"

datatype dialog_action = Close | ElicitSlot | Delegate

datatype intent_state = Fulfilled | InProgress

record lex_event =
  invocationSource :: string
  ev_intent_name :: string
  ev_slots :: slots
  ev_sessionAttributes :: "(string \<rightharpoonup> string) option"

text \<open>The response, flattened: \<open>sessionState.dialogAction.type\<close> and \<open>.slotToElicit\<close>,
  \<open>sessionState.intent.name\<close>, \<open>.slots\<close> and \<open>.state\<close>, \<open>sessionState.sessionAttributes\<close>,
  and the \<open>content\<close> of each plain-text message.\<close>

record lex_response =
  dialogAction_type :: dialog_action
  slotToElicit :: "string option"
  intent_name :: string
  intent_slots :: slots
  intent_state :: intent_state
  sessionAttributes :: "string \<rightharpoonup> string"
  messages :: "string list"

record lf1_world =
  now :: int
  LocalTZA :: zone
  Date_parse :: "string \<Rightarrow> int option"
  lf1_SQS_QUEUE_URL :: "string option"
  sqs_send :: "messageBody \<Rightarrow> exn + unit"
  dynamo_put :: "user_state_item \<Rightarrow> exn + unit"

text \<open>\<open>if (v)\<close> on a nullable string\<close>

definition present :: "string option \<Rightarrow> bool" where
  "present v = (case v of None \<Rightarrow> False | Some s \<Rightarrow> s \<noteq> [])"

definition of_nullable :: "string option \<Rightarrow> jsval" where
  "of_nullable v = (case v of None \<Rightarrow> Null | Some s \<Rightarrow> Str s)"

definition VALID_CUISINES :: "string list" where
  "VALID_CUISINES = [''chinese'', ''japanese'', ''italian'', ''mexican'', ''indian'', ''thai'']"

definition LOCATION_ALIASES :: "(string \<times> string) list" where
  "LOCATION_ALIASES =
     [(''manhattan'', ''manhattan''),
      (''new york'', ''manhattan''),
      (''new york city'', ''manhattan''),
      (''nyc'', ''manhattan''),
      (''ny'', ''manhattan''),
      (''brooklyn'', ''brooklyn''),
      (''queens'', ''queens''),
      (''bronx'', ''bronx''),
      (''the bronx'', ''bronx''),
      (''staten island'', ''staten island'')]"

text \<open>The property names every object literal inherits from \<open>Object.prototype\<close>.\<close>

definition Object_prototype :: "string list" where
  "Object_prototype =
     [''constructor'', ''__defineGetter__'', ''__defineSetter__'', ''hasOwnProperty'',
      ''__lookupGetter__'', ''__lookupSetter__'', ''isPrototypeOf'', ''propertyIsEnumerable'',
      ''toString'', ''valueOf'', ''__proto__'', ''toLocaleString'']"

text \<open>\<open>obj[key]\<close> on an object literal: an own property, else an inherited member, else
  \<open>undefined\<close>.\<close>

definition get_property :: "(string \<times> string) list \<Rightarrow> string \<Rightarrow> jsval" where
  "get_property obj key =
     (case map_of obj key of
        Some v \<Rightarrow> Str v
      | None \<Rightarrow> if key \<in> set Object_prototype then Inherited key else Undefined)"

definition normalizeLocation :: "string option \<Rightarrow> jsval" where
  "normalizeLocation raw =
     (case raw of
        None \<Rightarrow> Null
      | Some r \<Rightarrow>
          if r = [] then Null
          else (let key = trim (toLowerCase r) in js_or (get_property LOCATION_ALIASES key) Null))"

definition getSlotValue :: "slots \<Rightarrow> string \<Rightarrow> string option" where
  "getSlotValue slots slotName =
     (case slots slotName of
        Some (Slot (Some v)) \<Rightarrow>
          (if present (interpretedValue v) then interpretedValue v
           else if present (originalValue v) then originalValue v
           else None)
      | _ \<Rightarrow> None)"

definition attrs_or_empty :: "(string \<rightharpoonup> string) option \<Rightarrow> (string \<rightharpoonup> string)" where
  "attrs_or_empty a = (case a of None \<Rightarrow> Map.empty | Some m \<Rightarrow> m)"

definition buildFulfillmentResponse :: "lex_event \<Rightarrow> string \<Rightarrow> lex_response" where
  "buildFulfillmentResponse event messageContent =
     \<lparr>dialogAction_type = Close,
      slotToElicit = None,
      intent_name = ev_intent_name event,
      intent_slots = ev_slots event,
      intent_state = Fulfilled,
      sessionAttributes = attrs_or_empty (ev_sessionAttributes event),
      messages = [messageContent]\<rparr>"

definition buildElicitSlotResponse :: "lex_event \<Rightarrow> string \<Rightarrow> string \<Rightarrow> lex_response" where
  "buildElicitSlotResponse event slotToElicit' messageContent =
     (let slots = (ev_slots event)(slotToElicit' \<mapsto> NullSlot)
      in \<lparr>dialogAction_type = ElicitSlot,
          slotToElicit = Some slotToElicit',
          intent_name = ev_intent_name event,
          intent_slots = slots,
          intent_state = InProgress,
          sessionAttributes = attrs_or_empty (ev_sessionAttributes event),
          messages = [messageContent]\<rparr>)"

definition buildDelegateResponse :: "lex_event \<Rightarrow> lex_response" where
  "buildDelegateResponse event =
     \<lparr>dialogAction_type = Delegate,
      slotToElicit = None,
      intent_name = ev_intent_name event,
      intent_slots = ev_slots event,
      intent_state = InProgress,
      sessionAttributes = attrs_or_empty (ev_sessionAttributes event),
      messages = []\<rparr>"

text \<open>A double quote inside a message.\<close>

definition dq :: string where
  "dq = [CHR 0x22]"

text \<open>
  Each block of \<open>handleDialogValidation\<close> either returns an elicit response for its slot
  or falls through. A block is modelled by the message it elicits with, if any.
\<close>

definition validate_Location :: "string option \<Rightarrow> string option" where
  "validate_Location location =
     (if present location then
        (let normalized = normalizeLocation location in
         if \<not> truthy normalized then
           Some (''Sorry, we only serve the New York City area right now. ''
                 @ dq @ the location @ dq @ '' isn't in our coverage. ''
                 @ ''Try Manhattan, Brooklyn, Queens, or just '' @ dq @ ''NYC'' @ dq @ ''.'')
         else None)
      else None)"

definition validate_Cuisine :: "string option \<Rightarrow> string option" where
  "validate_Cuisine cuisine =
     (if present cuisine then
        (if trim (toLowerCase (the cuisine)) \<notin> set VALID_CUISINES then
           Some (''Hmm, I don't have '' @ dq @ the cuisine @ dq @ '' in my list yet. ''
                 @ ''I can help with: ''
                 @ join '', '' (map (\<lambda>c. toUpperCase (charAt0 c) @ slice1 c) VALID_CUISINES)
                 @ ''. '' @ ''Which one sounds good?'')
         else None)
      else None)"

definition msg_not_a_number :: string where
  "msg_not_a_number =
     ''That doesn't look right. How many people will be dining? Please enter a number (e.g., 2).''"

text \<open>The bytes between \<open>1\<close> and \<open>20\<close> are those of the source file.\<close>

definition msg_large_party :: string where
  "msg_large_party =
     ''That's a large party! For groups over 20, please contact the restaurant directly. ''
     @ ''How many people (1''
     @ [CHR 0xC3, CHR 0xA2, CHR 0xE2, CHR 0x82, CHR 0xAC, CHR 0xE2, CHR 0x80, CHR 0x9C]
     @ ''20)?''"

definition validate_NumberOfPeople :: "string option \<Rightarrow> string option" where
  "validate_NumberOfPeople numberOfPeople =
     (if present numberOfPeople then
        (case parseInt (the numberOfPeople) of
           None \<Rightarrow> Some msg_not_a_number
         | Some num \<Rightarrow>
             if num < 1 then Some msg_not_a_number
             else if num > 20 then Some msg_large_party
             else None)
      else None)"

definition validate_DiningDate :: "lf1_world \<Rightarrow> string option \<Rightarrow> string option" where
  "validate_DiningDate w diningDate =
     (if present diningDate then
        (let today = setHours0 (LocalTZA w) (now w) in
         case Date_parse w (the diningDate @ ''T00:00:00'') of
           None \<Rightarrow>
             Some (''I couldn't understand that date. Could you try again? ''
                   @ ''You can say '' @ dq @ ''today'' @ dq @ '', '' @ dq @ ''tomorrow'' @ dq
                   @ '', or a date like '' @ dq @ ''March 5th'' @ dq @ ''.'')
         | Some requested \<Rightarrow>
             if requested < today then
               Some (''That date ('' @ the diningDate @ '') is in the past! ''
                     @ ''Please pick today or a future date.'')
             else
               (let maxFuture = setDate_plus (LocalTZA w) today 90 in
                if requested > maxFuture then
                  Some (''That's quite far out! I can only take reservations up to 90 days ahead. ''
                        @ ''Could you pick a closer date?'')
                else None))
      else None)"

text \<open>\<open>/^\d{2}:\d{2}$/.test(s)\<close>\<close>

definition timeRegex_test :: "string \<Rightarrow> bool" where
  "timeRegex_test s =
     (length s = 5 \<and> is_digit (s ! 0) \<and> is_digit (s ! 1) \<and> s ! 2 = CHR '':''
      \<and> is_digit (s ! 3) \<and> is_digit (s ! 4))"

text \<open>
  After the pattern test both parts of \<open>diningTime.split(":")\<close> are two decimal digits, on
  which \<open>Number\<close> is \<open>digits_value\<close>.
\<close>

definition validate_DiningTime :: "lf1_world \<Rightarrow> string option \<Rightarrow> string option \<Rightarrow> string option" where
  "validate_DiningTime w diningDate diningTime =
     (if present diningTime then
        (if \<not> timeRegex_test (the diningTime) then
           Some (''I couldn't parse that time. Try something like '' @ dq @ ''7 pm'' @ dq
                 @ '' or '' @ dq @ ''19:30'' @ dq @ ''.'')
         else
           (let parts = map digits_value (split CHR '':'' (the diningTime));
                hours = int (parts ! 0);
                minutes = int (parts ! 1)
            in if hours < 6 \<or> hours > 23 then
                 Some (''Most restaurants are open between 6 AM and 11 PM. ''
                       @ ''Could you pick a time in that range?'')
               else if present diningDate then
                 (let todayStr = hd (split CHR ''T'' (toISOString (now w))) in
                  if the diningDate = todayStr then
                    (let nowHours = getHours (LocalTZA w) (now w);
                         nowMinutes = getMinutes (LocalTZA w) (now w)
                     in if hours < nowHours \<or> (hours = nowHours \<and> minutes \<le> nowMinutes) then
                          Some (''It's already past '' @ the diningTime
                                @ '' today! Please pick a later time, ''
                                @ ''or choose a future date.'')
                        else None)
                  else None)
               else None))
      else None)"

text \<open>\<open>/^[^\s@]+@[^\s@]+\.[^\s@]+$/.test(s)\<close>: the string splits as \<open>a@b.c\<close> with \<open>a\<close>,
  \<open>b\<close>, \<open>c\<close> non-empty and free of white space and \<open>@\<close>.\<close>

definition email_char :: "char \<Rightarrow> bool" where
  "email_char c = (\<not> is_space c \<and> c \<noteq> CHR ''@'')"

definition emailRegex_test :: "string \<Rightarrow> bool" where
  "emailRegex_test s =
     list_ex (\<lambda>i. list_ex (\<lambda>j.
        (let a = take i s; b = take (j - (i + 1)) (drop (i + 1) s); c = drop (j + 1) s
         in s ! i = CHR ''@'' \<and> s ! j = CHR ''.'' \<and> a \<noteq> [] \<and> b \<noteq> [] \<and> c \<noteq> []
            \<and> list_all email_char a \<and> list_all email_char b \<and> list_all email_char c))
        [i + 1 ..< length s]) [0 ..< length s]"

definition validate_Email :: "string option \<Rightarrow> string option" where
  "validate_Email email =
     (if present email then
        (if \<not> emailRegex_test (the email) then
           Some (''That doesn't look like a valid email. ''
                 @ ''Please enter an email like yourname@example.com.'')
         else None)
      else None)"

definition handleDialogValidation :: "lf1_world \<Rightarrow> lex_event \<Rightarrow> slots \<Rightarrow> lex_response" where
  "handleDialogValidation w event slots =
     (let location = getSlotValue slots ''Location'';
          cuisine = getSlotValue slots ''Cuisine'';
          numberOfPeople = getSlotValue slots ''NumberOfPeople'';
          diningDate = getSlotValue slots ''DiningDate'';
          diningTime = getSlotValue slots ''DiningTime'';
          email = getSlotValue slots ''Email''
      in case validate_Location location of
           Some m \<Rightarrow> buildElicitSlotResponse event ''Location'' m
         | None \<Rightarrow>
       (case validate_Cuisine cuisine of
           Some m \<Rightarrow> buildElicitSlotResponse event ''Cuisine'' m
         | None \<Rightarrow>
       (case validate_NumberOfPeople numberOfPeople of
           Some m \<Rightarrow> buildElicitSlotResponse event ''NumberOfPeople'' m
         | None \<Rightarrow>
       (case validate_DiningDate w diningDate of
           Some m \<Rightarrow> buildElicitSlotResponse event ''DiningDate'' m
         | None \<Rightarrow>
       (case validate_DiningTime w diningDate diningTime of
           Some m \<Rightarrow> buildElicitSlotResponse event ''DiningTime'' m
         | None \<Rightarrow>
       (case validate_Email email of
           Some m \<Rightarrow> buildElicitSlotResponse event ''Email'' m
         | None \<Rightarrow> buildDelegateResponse event))))))"

text \<open>\<open>`${v}`\<close> and \<open>String(v)\<close> of a nullable string\<close>

definition template_nullable :: "string option \<Rightarrow> string" where
  "template_nullable v = template (of_nullable v)"

definition saveUserState ::
  "lf1_world \<Rightarrow> string option \<Rightarrow> jsval \<Rightarrow> string option \<Rightarrow> string option \<Rightarrow> string option
     \<Rightarrow> string option \<Rightarrow> unit io" where
  "saveUserState w email location cuisine numberOfPeople diningDate diningTime =
     try_catch
       (let item = \<lparr>us_Email = of_nullable email,
                    us_Location = location,
                    us_Cuisine = of_nullable cuisine,
                    us_NumberOfPeople = Str (template_nullable numberOfPeople),
                    us_DiningDate = of_nullable diningDate,
                    us_DiningTime = of_nullable diningTime,
                    us_LastSearchTimestamp = toISOString (now w)\<rparr>
        in issue (PutItem item) (dynamo_put w item))
       (\<lambda>err. ret ())"

definition msg_all_set :: "string \<Rightarrow> string option \<Rightarrow> string option \<Rightarrow> string option \<Rightarrow> string option \<Rightarrow> string" where
  "msg_all_set cuisineDisplay numberOfPeople diningDate diningTime email =
     ''You're all set! Expect my '' @ cuisineDisplay @ '' restaurant suggestions ''
     @ ''for '' @ template_nullable numberOfPeople @ '' people on '' @ template_nullable diningDate
     @ '' around '' @ template_nullable diningTime @ '' ''
     @ ''in your inbox at '' @ template_nullable email @ '' shortly. Have a great day!''"

definition handleFulfillment :: "lf1_world \<Rightarrow> lex_event \<Rightarrow> slots \<Rightarrow> lex_response io" where
  "handleFulfillment w event slots =
     (let locationRaw = getSlotValue slots ''Location'';
          cuisine = getSlotValue slots ''Cuisine'';
          numberOfPeople = getSlotValue slots ''NumberOfPeople'';
          diningDate = getSlotValue slots ''DiningDate'';
          diningTime = getSlotValue slots ''DiningTime'';
          email = getSlotValue slots ''Email'';
          location = js_or (normalizeLocation locationRaw) (of_nullable locationRaw)
      in case cuisine of
           None \<Rightarrow> throw (Error ''Cannot read properties of null (reading 'toLowerCase')'')
         | Some c \<Rightarrow>
             (let sqsMessage = \<lparr>Location = location,
                                Cuisine = Str (trim (toLowerCase c)),
                                NumberOfPeople = of_nullable numberOfPeople,
                                DiningDate = of_nullable diningDate,
                                DiningTime = of_nullable diningTime,
                                Email = of_nullable email\<rparr>
              in try_catch
                   (case lf1_SQS_QUEUE_URL w of
                      None \<Rightarrow>
                        ret (buildFulfillmentResponse event
                          (''I'm sorry, the restaurant suggestion service isn't configured yet. ''
                           @ ''Please try again later.''))
                    | Some sqsQueueUrl \<Rightarrow>
                        if sqsQueueUrl = [] then
                          ret (buildFulfillmentResponse event
                            (''I'm sorry, the restaurant suggestion service isn't configured yet. ''
                             @ ''Please try again later.''))
                        else
                          io_bind (issue (SendMessage sqsQueueUrl sqsMessage) (sqs_send w sqsMessage))
                            (\<lambda>_. io_bind
                               (saveUserState w email location cuisine numberOfPeople diningDate
                                  diningTime)
                               (\<lambda>_. (let cuisineDisplay =
                                            toUpperCase (charAt0 c) @ toLowerCase (slice1 c)
                                      in ret (buildFulfillmentResponse event
                                           (msg_all_set cuisineDisplay numberOfPeople diningDate
                                              diningTime email))))))
                   (\<lambda>error. ret (buildFulfillmentResponse event
                      (''I'm sorry, something went wrong while processing your request. ''
                       @ ''Please try again in a moment.'')))))"

text \<open>The bytes after the last sentence of the thank-you message and inside the fallback
  message are those of the source file.\<close>

definition msg_greeting :: string where
  "msg_greeting =
     ''Hi there! I can help you find restaurant suggestions. ''
     @ ''Just say something like '' @ dq @ ''I'm looking for Italian food'' @ dq
     @ '' to get started.''"

definition msg_thank_you :: string where
  "msg_thank_you =
     ''You're welcome! If you want to search again, just say ''
     @ dq @ ''find me a restaurant'' @ dq @ '' anytime. Enjoy your meal! ''
     @ [CHR 0xC3, CHR 0xB0, CHR 0xC5, CHR 0xB8, CHR 0xCB, CHR 0x9C, CHR 0xC5, CHR 0xA0]"

definition msg_fallback :: string where
  "msg_fallback =
     ''I'm not sure I understood that. I can help you find restaurant suggestions ''
     @ [CHR 0xC3, CHR 0xA2, CHR 0xE2, CHR 0x82, CHR 0xAC, CHR 0xE2, CHR 0x80, CHR 0x9D] @ '' ''
     @ ''just say something like '' @ dq @ ''I want to eat'' @ dq @ '' or '' @ dq
     @ ''find me a restaurant'' @ dq @ ''. ''
     @ ''If you already made a request, I can't modify it, but you can start a new one!''"

text \<open>The handler of LF1: its response, and the commands it issued.\<close>

definition lf1_handler :: "lf1_world \<Rightarrow> lex_event \<Rightarrow> lex_response \<times> call list" where
  "lf1_handler w event =
     (let intentName = ev_intent_name event;
          slots = ev_slots event
      in case
           (if intentName = ''GreetingIntent'' then ret (buildFulfillmentResponse event msg_greeting)
            else if intentName = ''ThankYouIntent'' then
              ret (buildFulfillmentResponse event msg_thank_you)
            else if intentName = ''DiningSuggestionsIntent''
                    \<and> invocationSource event = ''DialogCodeHook'' then
              ret (handleDialogValidation w event slots)
            else if intentName = ''DiningSuggestionsIntent''
                    \<and> invocationSource event = ''FulfillmentCodeHook'' then
              handleFulfillment w event slots
            else ret (buildFulfillmentResponse event msg_fallback))
         of
           (Inl err, tr) \<Rightarrow>
             (buildFulfillmentResponse event
                ''Oops, something went wrong on my end. Please try again in a moment.'', tr)
         | (Inr r, tr) \<Rightarrow> (r, tr))"

section \<open>A uniform choice, as the specification words it\<close>

text \<open>
  The comparator of \<open>getRandomItems\<close> is \<open>() => 0.5 - Math.random()\<close>. A call of
  \<open>Math.random()\<close> is a draw \<open>j\<close> among \<open>2 ^ m\<close> equally likely values \<open>j / 2 ^ m\<close>, and
  the comparator's result has the sign of \<open>comparator m j\<close>. The engine's sort asks the
  comparator as often as it likes, up to \<open>k\<close> times, and the order in which it leaves
  the positions is a function \<open>engine\<close> of the results it got and of the length.
  \<open>with_engine w engine m ds\<close> is the world in which the draws are \<open>ds\<close>.

  A choice of up to three candidates is uniform, without replacement, when every set of
  \<open>min(3, n)\<close> positions of the \<open>n\<close> hits is chosen on the same share of the draws: one
  in \<open>n choose min(3, n)\<close>.
\<close>

definition comparator :: "nat \<Rightarrow> nat \<Rightarrow> int" where
  "comparator m j = 2 ^ m - 2 * int j"

definition draws :: "nat \<Rightarrow> nat \<Rightarrow> nat list set" where
  "draws m k = {ds. set ds \<subseteq> {0..<2 ^ m} \<and> length ds = k}"

definition with_engine ::
  "lf2_world \<Rightarrow> (int list \<Rightarrow> nat \<Rightarrow> nat list) \<Rightarrow> nat \<Rightarrow> nat list \<Rightarrow> lf2_world" where
  "with_engine w engine m ds = w\<lparr>sort_order := engine (map (comparator m) ds)\<rparr>"

definition uniformly_chosen ::
  "lf2_world \<Rightarrow> (int list \<Rightarrow> nat \<Rightarrow> nat list) \<Rightarrow> nat \<Rightarrow> nat \<Rightarrow> 'a list \<Rightarrow> bool" where
  "uniformly_chosen w engine m k hits \<longleftrightarrow>
     (\<forall>S. S \<subseteq> {0..<length hits} \<and> card S = min 3 (length hits) \<longrightarrow>
        card {ds \<in> draws m k.
                set (selected_positions (with_engine w engine m ds) hits 3) = S}
          * (length hits choose min 3 (length hits))
        = card (draws m k))"

section \<open>The validation order, as the specification words it\<close>

text \<open>
  The specification speaks of the first field, in validation order, that is present and
  fails its rule. \<open>field_error\<close> is the rule of one field; \<open>first_invalid\<close> is that
  first field; \<open>fields_after f\<close> are the fields whose turn comes after \<open>f\<close>.
\<close>

definition validation_order :: "string list" where
  "validation_order =
     [''Location'', ''Cuisine'', ''NumberOfPeople'', ''DiningDate'', ''DiningTime'', ''Email'']"

definition field_error :: "lf1_world \<Rightarrow> slots \<Rightarrow> string \<Rightarrow> string option" where
  "field_error w slots f =
     (if f = ''Location'' then validate_Location (getSlotValue slots ''Location'')
      else if f = ''Cuisine'' then validate_Cuisine (getSlotValue slots ''Cuisine'')
      else if f = ''NumberOfPeople'' then
        validate_NumberOfPeople (getSlotValue slots ''NumberOfPeople'')
      else if f = ''DiningDate'' then validate_DiningDate w (getSlotValue slots ''DiningDate'')
      else if f = ''DiningTime'' then
        validate_DiningTime w (getSlotValue slots ''DiningDate'') (getSlotValue slots ''DiningTime'')
      else if f = ''Email'' then validate_Email (getSlotValue slots ''Email'')
      else None)"

definition first_invalid :: "lf1_world \<Rightarrow> slots \<Rightarrow> string option" where
  "first_invalid w slots = find (\<lambda>f. field_error w slots f \<noteq> None) validation_order"

definition fields_after :: "string \<Rightarrow> string list" where
  "fields_after f = tl (dropWhile (\<lambda>g. g \<noteq> f) validation_order)"

text \<open>The UTC calendar date of the clock, as \<open>now.toISOString().split("T")[0]\<close> gives it.\<close>

definition todayStr :: "lf1_world \<Rightarrow> string" where
  "todayStr w = hd (split CHR ''T'' (toISOString (now w)))"

text \<open>
  The message \<open>handleFulfillment\<close> hands to the queue, and the confirmation it closes with,
  as functions of the slots.
\<close>

definition queued_message :: "slots \<Rightarrow> messageBody" where
  "queued_message sl =
     \<lparr>Location = js_or (normalizeLocation (getSlotValue sl ''Location''))
                   (of_nullable (getSlotValue sl ''Location'')),
      Cuisine = Str (trim (toLowerCase (the (getSlotValue sl ''Cuisine'')))),
      NumberOfPeople = of_nullable (getSlotValue sl ''NumberOfPeople''),
      DiningDate = of_nullable (getSlotValue sl ''DiningDate''),
      DiningTime = of_nullable (getSlotValue sl ''DiningTime''),
      Email = of_nullable (getSlotValue sl ''Email'')\<rparr>"

definition confirmation :: "lex_event \<Rightarrow> slots \<Rightarrow> lex_response" where
  "confirmation ev sl =
     buildFulfillmentResponse ev
       (msg_all_set
          (toUpperCase (charAt0 (the (getSlotValue sl ''Cuisine'')))
           @ toLowerCase (slice1 (the (getSlotValue sl ''Cuisine''))))
          (getSlotValue sl ''NumberOfPeople'') (getSlotValue sl ''DiningDate'')
          (getSlotValue sl ''DiningTime'') (getSlotValue sl ''Email''))"

section \<open>Sample worlds and events\<close>

definition sample_body :: messageBody where
  "sample_body =
     \<lparr>Location = Str ''manhattan'', Cuisine = Str ''thai'', NumberOfPeople = Str ''2'',
      DiningDate = Str ''2026-02-21'', DiningTime = Str ''19:30'', Email = Str ''ann@example.com''\<rparr>"

text \<open>Five hits; every record is missing from the store; the mailer refuses the recipient.\<close>

definition sample_lf2_world :: lf2_world where
  "sample_lf2_world =
     \<lparr>SQS_QUEUE_URL = Some ''https://sqs/q1'',
      OPENSEARCH_ENDPOINT = Some ''https://search'',
      SES_SENDER_EMAIL = Some ''bot@example.com'',
      sqs_receive = Inr (Some [\<lparr>Body = ''{}'', ReceiptHandle = ''h1''\<rparr>]),
      JSON_parse = (\<lambda>s. Inr sample_body),
      opensearch = (\<lambda>q. Inr (Some [''r1'', ''r2'', ''r3'', ''r4'', ''r5''])),
      dynamo_get = (\<lambda>i. Inr None),
      ses_send = (\<lambda>e. Inl (Error ''Email address is not verified'')),
      sqs_delete = (\<lambda>h. Inr ()),
      sort_order = (\<lambda>n. rev [0..<n])\<rparr>"

text \<open>The same world with a search index that has no match.\<close>

definition no_hits_lf2_world :: lf2_world where
  "no_hits_lf2_world = sample_lf2_world\<lparr>opensearch := (\<lambda>q. Inr (Some []))\<rparr>"

text \<open>What \<open>getRestaurantFromDynamoDB\<close> returns for a missing record.\<close>

definition placeholder :: restaurant where
  "placeholder =
     \<lparr>name = ''Unknown Restaurant'', address = ''Address not available'',
      rating = Undefined, numberOfReviews = Undefined, zipCode = Undefined\<rparr>"

definition filled :: "string \<Rightarrow> slot" where
  "filled s = Slot (Some \<lparr>interpretedValue = Some s, originalValue = Some s\<rparr>)"

definition sample_event :: "slots \<Rightarrow> lex_event" where
  "sample_event sl =
     \<lparr>invocationSource = ''DialogCodeHook'', ev_intent_name = ''DiningSuggestionsIntent'',
      ev_slots = sl, ev_sessionAttributes = None\<rparr>"

definition utc_zone :: zone where
  "utc_zone t isUTC = 0"

text \<open>
  New York by the rules of 2026: four hours west of UTC from 2026-03-08T07:00:00Z
  (02:00 local, read on as 03:00) until 2026-11-01T06:00:00Z (02:00 local, read again as
  01:00), five hours west otherwise. A local time that the change skips or repeats is
  read with the offset in force before the change.
\<close>

definition new_york_2026 :: zone where
  "new_york_2026 t isUTC =
     (if isUTC then
        (if 1772953200000 \<le> t \<and> t < 1793512800000 then - 14400000 else - 18000000)
      else
        (if 1772938800000 \<le> t \<and> t < 1793498400000 then - 14400000 else - 18000000))"

text \<open>
  A runtime on UTC at 2026-02-21T20:00:00Z. The queue accepts the request, the
  \<open>user-state\<close> table does not exist.
\<close>

definition utc_world :: lf1_world where
  "utc_world =
     \<lparr>now = 1771704000000,
      LocalTZA = utc_zone,
      Date_parse = (\<lambda>s. if s = ''2026-02-21T00:00:00'' then Some 1771632000000
                         else if s = ''2026-02-20T00:00:00'' then Some 1771545600000
                         else None),
      lf1_SQS_QUEUE_URL = Some ''https://sqs/q1'',
      sqs_send = (\<lambda>b. Inr ()),
      dynamo_put = (\<lambda>i. Inl (Error ''Requested resource not found''))\<rparr>"

text \<open>
  A runtime in New York at 2026-02-22T01:00:00Z, five hours west of UTC, which is 20:00 on
  2026-02-21 local time. Local midnight of 2026-02-21 is 2026-02-21T05:00:00Z.
\<close>

definition new_york_world :: lf1_world where
  "new_york_world =
     \<lparr>now = 1771722000000,
      LocalTZA = new_york_2026,
      Date_parse = (\<lambda>s. if s = ''2026-02-21T00:00:00'' then Some 1771650000000 else None),
      lf1_SQS_QUEUE_URL = Some ''https://sqs/q1'',
      sqs_send = (\<lambda>b. Inr ()),
      dynamo_put = (\<lambda>i. Inr ())\<rparr>"

text \<open>
  A runtime in New York at 2026-09-01T16:00:00Z, noon local time, four hours west of UTC.
  Ninety days on is 2026-11-30, after the clock has gone back: local midnight of
  2026-11-30 is 2026-11-30T05:00:00Z, that of 2026-12-01 is 2026-12-01T05:00:00Z.
\<close>

definition new_york_september_world :: lf1_world where
  "new_york_september_world =
     \<lparr>now = 1788278400000,
      LocalTZA = new_york_2026,
      Date_parse = (\<lambda>s. if s = ''2026-11-30T00:00:00'' then Some 1796014800000
                         else if s = ''2026-12-01T00:00:00'' then Some 1796101200000
                         else None),
      lf1_SQS_QUEUE_URL = Some ''https://sqs/q1'',
      sqs_send = (\<lambda>b. Inr ()),
      dynamo_put = (\<lambda>i. Inr ())\<rparr>"

definition ninety_days_slots :: slots where
  "ninety_days_slots = [''DiningDate'' \<mapsto> filled ''2026-11-30'']"

definition fulfillment_event :: "slots \<Rightarrow> lex_event" where
  "fulfillment_event sl =
     \<lparr>invocationSource = ''FulfillmentCodeHook'', ev_intent_name = ''DiningSuggestionsIntent'',
      ev_slots = sl, ev_sessionAttributes = None\<rparr>"

definition paris_slots :: slots where
  "paris_slots = [''Location'' \<mapsto> filled ''Paris'', ''Cuisine'' \<mapsto> filled ''Greek'']"

definition large_party_slots :: slots where
  "large_party_slots = [''NumberOfPeople'' \<mapsto> filled ''21'']"

definition late_minutes_slots :: slots where
  "late_minutes_slots = [''DiningTime'' \<mapsto> filled ''19:99'']"

definition past_time_slots :: slots where
  "past_time_slots =
     [''DiningDate'' \<mapsto> filled ''2026-02-21'', ''DiningTime'' \<mapsto> filled ''19:30'']"

definition constructor_slots :: slots where
  "constructor_slots = [''Location'' \<mapsto> filled ''constructor'']"

definition complete_slots :: slots where
  "complete_slots =
     [''Location'' \<mapsto> filled ''NYC'', ''Cuisine'' \<mapsto> filled ''Thai'',
      ''NumberOfPeople'' \<mapsto> filled ''2'', ''DiningDate'' \<mapsto> filled ''2026-02-22'',
      ''DiningTime'' \<mapsto> filled ''19:30'', ''Email'' \<mapsto> filled ''ann@example.com'']"

section \<open>The queue worker acknowledges what it has received\<close>

lemma searchOpenSearch_trace:
  "searchOpenSearch w c = (r, tr) \<Longrightarrow> tr = [] \<or> (\<exists>q. tr = [OpenSearchRequest q])"
  by (auto simp: searchOpenSearch_def throw_def ret_def io_bind_def issue_def Let_def
           split: if_splits jsval.splits sum.splits option.splits)

lemma lf2_try_zero_hits:
  assumes "sqs_receive w = Inr (Some (m # ms))"
    and "JSON_parse w (Body m) = Inr b"
    and "searchOpenSearch w (Cuisine b) = (Inr [], tr)"
  shows "lf2_try w url =
     (case sqs_delete w (ReceiptHandle m) of
        Inl e \<Rightarrow> Inl e
      | Inr u \<Rightarrow> Inr \<lparr>statusCode = 200, body = ''No restaurants found''\<rparr>,
      ReceiveMessage url # tr @ [DeleteMessage url (ReceiptHandle m)])"
  using assms
  by (simp add: lf2_try_def io_bind_def issue_def ret_def throw_def deleteSQSMessage_def
           split: sum.splits)

text \<open>Whatever the mailer did, the run goes on to the delete.\<close>

lemma lf2_try_hits:
  assumes "sqs_receive w = Inr (Some (m # ms))"
    and "JSON_parse w (Body m) = Inr b"
    and "searchOpenSearch w (Cuisine b) = (Inr ids, tr1)"
    and "ids \<noteq> []"
    and "promise_all (map (getRestaurantFromDynamoDB w) (getRandomItems w ids 3)) = (Inr rs, tr2)"
    and "sendEmailViaSES w (Email b) (Cuisine b) (NumberOfPeople b) (DiningDate b) (DiningTime b) rs
           = (outcome, tr3)"
  shows "lf2_try w url =
     (case sqs_delete w (ReceiptHandle m) of
        Inl e \<Rightarrow> Inl e
      | Inr u \<Rightarrow> Inr \<lparr>statusCode = 200, body = ''Message processed''\<rparr>,
      ReceiveMessage url # tr1 @ tr2 @ tr3 @ [DeleteMessage url (ReceiptHandle m)])"
  using assms
  by (simp add: lf2_try_def io_bind_def issue_def ret_def throw_def deleteSQSMessage_def
        try_catch_def Let_def split: sum.splits)

lemma sample_search:
  "searchOpenSearch sample_lf2_world (Cuisine sample_body)
     = (Inr [''r1'', ''r2'', ''r3'', ''r4'', ''r5''],
        [OpenSearchRequest \<lparr>query_size = 50, match_Cuisine = ''thai''\<rparr>])"
  by (simp add: searchOpenSearch_def sample_lf2_world_def sample_body_def env_unset_def
        io_bind_def issue_def ret_def toLowerCase_def lower_char_def is_upper_def)

lemma no_hits_search:
  "searchOpenSearch no_hits_lf2_world (Cuisine sample_body)
     = (Inr [], [OpenSearchRequest \<lparr>query_size = 50, match_Cuisine = ''thai''\<rparr>])"
  by (simp add: searchOpenSearch_def no_hits_lf2_world_def sample_lf2_world_def sample_body_def
        env_unset_def io_bind_def issue_def ret_def toLowerCase_def lower_char_def is_upper_def)

lemma sample_selected:
  "getRandomItems sample_lf2_world [''r1'', ''r2'', ''r3'', ''r4'', ''r5''] 3
     = [''r5'', ''r4'', ''r3'']"
  by (simp add: getRandomItems_def shuffled_positions_def sample_lf2_world_def Let_def upt_rec)

lemma sample_lookups:
  "promise_all (map (getRestaurantFromDynamoDB sample_lf2_world) [''r5'', ''r4'', ''r3''])
     = (Inr [placeholder, placeholder, placeholder],
        [GetItem ''r5'', GetItem ''r4'', GetItem ''r3''])"
  by (simp add: getRestaurantFromDynamoDB_def sample_lf2_world_def io_bind_def issue_def ret_def
        placeholder_def)

lemma sample_send:
  "\<exists>cmd. sendEmailViaSES sample_lf2_world (Email sample_body) (Cuisine sample_body)
     (NumberOfPeople sample_body) (DiningDate sample_body) (DiningTime sample_body)
     [placeholder, placeholder, placeholder]
     = (Inl (Error ''Email address is not verified''), [SendEmail cmd])"
  by (simp add: sendEmailViaSES_def sample_lf2_world_def issue_def Let_def)

text \<open>
  C1. A work item has been received and the search has at least one hit. If sending the
  notification throws (the mailer rejects it, or the sender address is not configured),
  the handler still issues, as its last command, the delete of that very item; and once
  the queue accepts the delete, the invocation ends as it does after a delivered
  notification, with status 200 and body "Message processed".
\<close>

theorem notification_failure_isolated:
  assumes "SQS_QUEUE_URL w = Some url" and "url \<noteq> []"
    and "sqs_receive w = Inr (Some (m # ms))"
    and "JSON_parse w (Body m) = Inr b"
    and "searchOpenSearch w (Cuisine b) = (Inr ids, tr1)"
    and "ids \<noteq> []"
    and "promise_all (map (getRestaurantFromDynamoDB w) (getRandomItems w ids 3)) = (Inr rs, tr2)"
    and "sendEmailViaSES w (Email b) (Cuisine b) (NumberOfPeople b) (DiningDate b) (DiningTime b) rs
           = (Inl emailError, tr3)"
  shows "snd (lf2_handler w)
           = ReceiveMessage url # tr1 @ tr2 @ tr3 @ [DeleteMessage url (ReceiptHandle m)]
       \<and> (sqs_delete w (ReceiptHandle m) = Inr ()
            \<longrightarrow> fst (lf2_handler w) = \<lparr>statusCode = 200, body = ''Message processed''\<rparr>)"
proof -
  have h: "lf2_handler w =
     (case sqs_delete w (ReceiptHandle m) of
        Inl e \<Rightarrow> \<lparr>statusCode = 500, body = error_message e\<rparr>
      | Inr u \<Rightarrow> \<lparr>statusCode = 200, body = ''Message processed''\<rparr>,
      ReceiveMessage url # tr1 @ tr2 @ tr3 @ [DeleteMessage url (ReceiptHandle m)])"
    using assms(1,2) lf2_try_hits [OF assms(3-8), of url]
    by (simp add: lf2_handler_def split: sum.splits)
  show ?thesis by (simp add: h)
qed

theorem notification_failure_isolated_witness:
  "last (snd (lf2_handler sample_lf2_world)) = DeleteMessage ''https://sqs/q1'' ''h1''
   \<and> length (snd (lf2_handler sample_lf2_world)) = 7
   \<and> fst (lf2_handler sample_lf2_world) = \<lparr>statusCode = 200, body = ''Message processed''\<rparr>"
proof -
  let ?m = "\<lparr>Body = ''{}'', ReceiptHandle = ''h1''\<rparr>"
  have 1: "SQS_QUEUE_URL sample_lf2_world = Some ''https://sqs/q1''"
    by (simp add: sample_lf2_world_def)
  have 2: "''https://sqs/q1'' \<noteq> []" by simp
  have 3: "sqs_receive sample_lf2_world = Inr (Some (?m # []))"
    by (simp add: sample_lf2_world_def)
  have 4: "JSON_parse sample_lf2_world (Body ?m) = Inr sample_body"
    by (simp add: sample_lf2_world_def)
  have 6: "[''r1'', ''r2'', ''r3'', ''r4'', ''r5''] \<noteq> []" by simp
  have 7: "promise_all (map (getRestaurantFromDynamoDB sample_lf2_world)
              (getRandomItems sample_lf2_world [''r1'', ''r2'', ''r3'', ''r4'', ''r5''] 3))
            = (Inr [placeholder, placeholder, placeholder],
               [GetItem ''r5'', GetItem ''r4'', GetItem ''r3''])"
    by (simp only: sample_selected sample_lookups)
  obtain cmd where 8:
    "sendEmailViaSES sample_lf2_world (Email sample_body) (Cuisine sample_body)
       (NumberOfPeople sample_body) (DiningDate sample_body) (DiningTime sample_body)
       [placeholder, placeholder, placeholder]
     = (Inl (Error ''Email address is not verified''), [SendEmail cmd])"
    using sample_send by blast
  have d: "sqs_delete sample_lf2_world (ReceiptHandle ?m) = Inr ()"
    by (simp add: sample_lf2_world_def)
  from notification_failure_isolated [OF 1 2 3 4 sample_search 6 7 8] d
  show ?thesis by simp
qed

text \<open>
  C2. A work item has been received and the search returns no hit. The handler issues the
  receive, the search request if one was made, and the delete of that item, and nothing
  else: no record lookup and no notification. Once the queue accepts the delete, the
  invocation ends with status 200 and body "No restaurants found".
\<close>

theorem zero_hits_acknowledged:
  assumes "SQS_QUEUE_URL w = Some url" and "url \<noteq> []"
    and "sqs_receive w = Inr (Some (m # ms))"
    and "JSON_parse w (Body m) = Inr b"
    and "searchOpenSearch w (Cuisine b) = (Inr [], tr)"
  shows "snd (lf2_handler w) = ReceiveMessage url # tr @ [DeleteMessage url (ReceiptHandle m)]
       \<and> (\<forall>c \<in> set (snd (lf2_handler w)). (\<forall>i. c \<noteq> GetItem i) \<and> (\<forall>e. c \<noteq> SendEmail e))
       \<and> (sqs_delete w (ReceiptHandle m) = Inr ()
            \<longrightarrow> fst (lf2_handler w) = \<lparr>statusCode = 200, body = ''No restaurants found''\<rparr>)"
proof -
  have tr: "tr = [] \<or> (\<exists>q. tr = [OpenSearchRequest q])"
    using assms(5) by (rule searchOpenSearch_trace)
  have h: "lf2_handler w =
     (case sqs_delete w (ReceiptHandle m) of
        Inl e \<Rightarrow> \<lparr>statusCode = 500, body = error_message e\<rparr>
      | Inr u \<Rightarrow> \<lparr>statusCode = 200, body = ''No restaurants found''\<rparr>,
      ReceiveMessage url # tr @ [DeleteMessage url (ReceiptHandle m)])"
    using assms(1,2) lf2_try_zero_hits [OF assms(3,4,5), of url]
    by (simp add: lf2_handler_def split: sum.splits)
  show ?thesis using tr by (auto simp: h)
qed

theorem zero_hits_acknowledged_witness:
  "snd (lf2_handler no_hits_lf2_world)
     = [ReceiveMessage ''https://sqs/q1'',
        OpenSearchRequest \<lparr>query_size = 50, match_Cuisine = ''thai''\<rparr>,
        DeleteMessage ''https://sqs/q1'' ''h1'']
   \<and> fst (lf2_handler no_hits_lf2_world) = \<lparr>statusCode = 200, body = ''No restaurants found''\<rparr>"
proof -
  let ?m = "\<lparr>Body = ''{}'', ReceiptHandle = ''h1''\<rparr>"
  have 1: "SQS_QUEUE_URL no_hits_lf2_world = Some ''https://sqs/q1''"
    by (simp add: no_hits_lf2_world_def sample_lf2_world_def)
  have 2: "''https://sqs/q1'' \<noteq> []" by simp
  have 3: "sqs_receive no_hits_lf2_world = Inr (Some (?m # []))"
    by (simp add: no_hits_lf2_world_def sample_lf2_world_def)
  have 4: "JSON_parse no_hits_lf2_world (Body ?m) = Inr sample_body"
    by (simp add: no_hits_lf2_world_def sample_lf2_world_def)
  have d: "sqs_delete no_hits_lf2_world (ReceiptHandle ?m) = Inr ()"
    by (simp add: no_hits_lf2_world_def sample_lf2_world_def)
  from zero_hits_acknowledged [OF 1 2 3 4 no_hits_search] d
  show ?thesis by simp
qed

section \<open>The choice of candidates\<close>




section \<open>The choice is not uniform\<close>








text \<open>With two hits the only choice is both of them, and any sort that rearranges makes it.\<close>

lemma two_hits_uniformly_chosen:
  "uniformly_chosen w (\<lambda>results n. rev [0..<n]) m k [''r1'', ''r2'']"
  unfolding uniformly_chosen_def
proof (intro allI impI)
  fix S :: "nat set"
  assume a: "S \<subseteq> {0..<length [''r1'', ''r2'']} \<and> card S = min 3 (length [''r1'', ''r2''])"
  have sel: "set (selected_positions (with_engine w (\<lambda>results n. rev [0..<n]) m ds)
                    [''r1'', ''r2''] 3) = {0, 1}" for ds
    by (auto simp: selected_positions_def shuffled_positions_def with_engine_def upt_rec)
  have sub: "S \<subseteq> {0, 1}" using a by auto
  have "card S = card {0, 1::nat}" using a by simp
  with sub have "S = {0, 1}" by (intro card_subset_eq) simp_all
  then have "{ds \<in> draws m k.
               set (selected_positions (with_engine w (\<lambda>results n. rev [0..<n]) m ds)
                      [''r1'', ''r2''] 3) = S} = draws m k"
    using sel by blast
  then show "card {ds \<in> draws m k.
               set (selected_positions (with_engine w (\<lambda>results n. rev [0..<n]) m ds)
                      [''r1'', ''r2''] 3) = S}
        * (length [''r1'', ''r2''] choose min 3 (length [''r1'', ''r2'']))
      = card (draws m k)"
    by simp
qed


section \<open>Numbers as text\<close>

lemma of_char_digit_char: "d < 10 \<Longrightarrow> (of_char (digit_char d) :: nat) = 48 + d"
  by (simp add: digit_char_def)

lemma is_digit_digit_char: "d < 10 \<Longrightarrow> is_digit (digit_char d)"
  by (simp add: is_digit_def of_char_digit_char)

lemma show_nat_digits: "list_all is_digit (show_nat n)"
proof (induction n rule: show_nat.induct)
  case (1 n)
  show ?case
  proof (cases "n < 10")
    case True
    then show ?thesis by (subst show_nat.simps) (simp add: is_digit_digit_char)
  next
    case False
    with 1 show ?thesis by (subst show_nat.simps) (simp add: is_digit_digit_char)
  qed
qed

lemma show_nat_nonempty: "show_nat n \<noteq> []"
  by (subst show_nat.simps) simp

lemma digits_value_snoc: "digits_value (xs @ [c]) = 10 * digits_value xs + (of_char c - 48)"
  by (simp add: digits_value_def)

lemma digits_value_show_nat: "digits_value (show_nat n) = n"
proof (induction n rule: show_nat.induct)
  case (1 n)
  show ?case
  proof (cases "n < 10")
    case True
    then show ?thesis
      by (subst show_nat.simps) (simp add: digits_value_def of_char_digit_char)
  next
    case False
    with 1 show ?thesis
      by (subst show_nat.simps) (simp add: digits_value_snoc of_char_digit_char)
  qed
qed

lemma is_digit_not_space: "is_digit c \<Longrightarrow> \<not> is_space c"
  by (auto simp: is_digit_def is_space_def)

lemma is_digit_not_sign: "is_digit c \<Longrightarrow> c \<noteq> CHR ''-'' \<and> c \<noteq> CHR ''+'' \<and> c \<noteq> CHR '':''"
  by (auto simp: is_digit_def)

lemma takeWhile_show_nat: "takeWhile is_digit (show_nat n) = show_nat n"
  using show_nat_digits [of n] by (simp add: list_all_iff)

lemma hd_show_nat_digit: "is_digit (hd (show_nat n))"
  using show_nat_digits [of n] show_nat_nonempty [of n]
  by (cases "show_nat n") simp_all

lemma parseInt_show_nat: "parseInt (show_nat n) = Some (int n)"
proof -
  let ?s = "show_nat n"
  have c: "is_digit (hd ?s)" by (rule hd_show_nat_digit)
  have ne: "?s \<noteq> []" by (rule show_nat_nonempty)
  have dw: "dropWhile is_space ?s = ?s"
    using is_digit_not_space [OF c] ne by (cases ?s) simp_all
  show ?thesis
    using is_digit_not_sign [OF c] ne
    by (simp add: parseInt_def Let_def dw takeWhile_show_nat digits_value_show_nat)
qed

lemma parseInt_minus_show_nat: "parseInt (CHR ''-'' # show_nat n) = Some (- int n)"
proof -
  have sp: "\<not> is_space CHR ''-''" by (simp add: is_space_def)
  show ?thesis
    using show_nat_nonempty [of n] sp
    by (simp add: parseInt_def Let_def takeWhile_show_nat digits_value_show_nat)
qed

lemma parseInt_show_int: "parseInt (show_int n) = Some n"
  by (simp add: show_int_def parseInt_show_nat parseInt_minus_show_nat)

lemma show_int_nonempty: "show_int n \<noteq> []"
  by (simp add: show_int_def show_nat_nonempty)

lemma msgs_differ: "msg_large_party \<noteq> msg_not_a_number"
  by (simp add: msg_large_party_def msg_not_a_number_def)

lemma validate_NumberOfPeople_show_int:
  "validate_NumberOfPeople (Some (show_int n)) =
     (if n < 1 then Some msg_not_a_number else if n > 20 then Some msg_large_party else None)"
  by (simp add: validate_NumberOfPeople_def present_def show_int_nonempty parseInt_show_int)

section \<open>The dialog controller elicits the first invalid field\<close>

lemma field_error_simps:
  "field_error w sl ''Location'' = validate_Location (getSlotValue sl ''Location'')"
  "field_error w sl ''Cuisine'' = validate_Cuisine (getSlotValue sl ''Cuisine'')"
  "field_error w sl ''NumberOfPeople'' =
     validate_NumberOfPeople (getSlotValue sl ''NumberOfPeople'')"
  "field_error w sl ''DiningDate'' = validate_DiningDate w (getSlotValue sl ''DiningDate'')"
  "field_error w sl ''DiningTime'' =
     validate_DiningTime w (getSlotValue sl ''DiningDate'') (getSlotValue sl ''DiningTime'')"
  "field_error w sl ''Email'' = validate_Email (getSlotValue sl ''Email'')"
  by (simp_all add: field_error_def)

lemma first_invalid_unfold:
  "first_invalid w sl =
     (if field_error w sl ''Location'' \<noteq> None then Some ''Location''
      else if field_error w sl ''Cuisine'' \<noteq> None then Some ''Cuisine''
      else if field_error w sl ''NumberOfPeople'' \<noteq> None then Some ''NumberOfPeople''
      else if field_error w sl ''DiningDate'' \<noteq> None then Some ''DiningDate''
      else if field_error w sl ''DiningTime'' \<noteq> None then Some ''DiningTime''
      else if field_error w sl ''Email'' \<noteq> None then Some ''Email''
      else None)"
  by (simp add: first_invalid_def validation_order_def)

lemma handleDialogValidation_unfold:
  "handleDialogValidation w ev sl =
     (case field_error w sl ''Location'' of
        Some m \<Rightarrow> buildElicitSlotResponse ev ''Location'' m
      | None \<Rightarrow>
     (case field_error w sl ''Cuisine'' of
        Some m \<Rightarrow> buildElicitSlotResponse ev ''Cuisine'' m
      | None \<Rightarrow>
     (case field_error w sl ''NumberOfPeople'' of
        Some m \<Rightarrow> buildElicitSlotResponse ev ''NumberOfPeople'' m
      | None \<Rightarrow>
     (case field_error w sl ''DiningDate'' of
        Some m \<Rightarrow> buildElicitSlotResponse ev ''DiningDate'' m
      | None \<Rightarrow>
     (case field_error w sl ''DiningTime'' of
        Some m \<Rightarrow> buildElicitSlotResponse ev ''DiningTime'' m
      | None \<Rightarrow>
     (case field_error w sl ''Email'' of
        Some m \<Rightarrow> buildElicitSlotResponse ev ''Email'' m
      | None \<Rightarrow> buildDelegateResponse ev))))))"
  unfolding field_error_simps by (simp add: handleDialogValidation_def Let_def)

lemma handleDialogValidation_first_invalid:
  "handleDialogValidation w ev sl =
     (case first_invalid w sl of
        Some f \<Rightarrow> buildElicitSlotResponse ev f (the (field_error w sl f))
      | None \<Rightarrow> buildDelegateResponse ev)"
  unfolding handleDialogValidation_unfold first_invalid_unfold
  by (simp split: option.splits)

lemma first_invalid_in_order:
  "first_invalid w sl = Some f \<Longrightarrow> f \<in> set validation_order \<and> field_error w sl f \<noteq> None"
  by (auto simp: first_invalid_def find_Some_iff)

lemma getSlotValue_other: "g \<noteq> h \<Longrightarrow> getSlotValue (sl(g := v)) h = getSlotValue sl h"
  by (simp add: getSlotValue_def)


lemma field_error_upd:
  "g \<noteq> ''Location'' \<Longrightarrow> field_error w (sl(g := v)) ''Location'' = field_error w sl ''Location''"
  "g \<noteq> ''Cuisine'' \<Longrightarrow> field_error w (sl(g := v)) ''Cuisine'' = field_error w sl ''Cuisine''"
  "g \<noteq> ''NumberOfPeople'' \<Longrightarrow>
     field_error w (sl(g := v)) ''NumberOfPeople'' = field_error w sl ''NumberOfPeople''"
  "g \<noteq> ''DiningDate'' \<Longrightarrow>
     field_error w (sl(g := v)) ''DiningDate'' = field_error w sl ''DiningDate''"
  "g \<noteq> ''DiningDate'' \<Longrightarrow> g \<noteq> ''DiningTime'' \<Longrightarrow>
     field_error w (sl(g := v)) ''DiningTime'' = field_error w sl ''DiningTime''"
  "g \<noteq> ''Email'' \<Longrightarrow> field_error w (sl(g := v)) ''Email'' = field_error w sl ''Email''"
  by (simp_all add: field_error_simps getSlotValue_other)

lemma fields_after_simps:
  "fields_after ''Location'' = [''Cuisine'', ''NumberOfPeople'', ''DiningDate'', ''DiningTime'', ''Email'']"
  "fields_after ''Cuisine'' = [''NumberOfPeople'', ''DiningDate'', ''DiningTime'', ''Email'']"
  "fields_after ''NumberOfPeople'' = [''DiningDate'', ''DiningTime'', ''Email'']"
  "fields_after ''DiningDate'' = [''DiningTime'', ''Email'']"
  "fields_after ''DiningTime'' = [''Email'']"
  "fields_after ''Email'' = []"
  by (simp_all add: fields_after_def validation_order_def)

lemma first_invalid_Some_iff:
  "first_invalid w sl = Some ''Location'' \<longleftrightarrow> field_error w sl ''Location'' \<noteq> None"
  "first_invalid w sl = Some ''Cuisine'' \<longleftrightarrow>
     field_error w sl ''Location'' = None \<and> field_error w sl ''Cuisine'' \<noteq> None"
  "first_invalid w sl = Some ''NumberOfPeople'' \<longleftrightarrow>
     field_error w sl ''Location'' = None \<and> field_error w sl ''Cuisine'' = None
     \<and> field_error w sl ''NumberOfPeople'' \<noteq> None"
  "first_invalid w sl = Some ''DiningDate'' \<longleftrightarrow>
     field_error w sl ''Location'' = None \<and> field_error w sl ''Cuisine'' = None
     \<and> field_error w sl ''NumberOfPeople'' = None \<and> field_error w sl ''DiningDate'' \<noteq> None"
  "first_invalid w sl = Some ''DiningTime'' \<longleftrightarrow>
     field_error w sl ''Location'' = None \<and> field_error w sl ''Cuisine'' = None
     \<and> field_error w sl ''NumberOfPeople'' = None \<and> field_error w sl ''DiningDate'' = None
     \<and> field_error w sl ''DiningTime'' \<noteq> None"
  "first_invalid w sl = Some ''Email'' \<longleftrightarrow>
     field_error w sl ''Location'' = None \<and> field_error w sl ''Cuisine'' = None
     \<and> field_error w sl ''NumberOfPeople'' = None \<and> field_error w sl ''DiningDate'' = None
     \<and> field_error w sl ''DiningTime'' = None \<and> field_error w sl ''Email'' \<noteq> None"
  unfolding first_invalid_unfold by simp_all

lemma first_invalid_later_field:
  assumes "first_invalid w sl = Some f" and "g \<in> set (fields_after f)"
  shows "first_invalid w (sl(g := v)) = Some f
       \<and> field_error w (sl(g := v)) f = field_error w sl f"
proof -
  have f: "f \<in> set validation_order" using first_invalid_in_order [OF assms(1)] by simp
  then have "f = ''Location'' \<or> f = ''Cuisine'' \<or> f = ''NumberOfPeople''
      \<or> f = ''DiningDate'' \<or> f = ''DiningTime'' \<or> f = ''Email''"
    by (simp add: validation_order_def)
  then show ?thesis
  proof (elim disjE)
    assume c1: "f = ''Location''"
    have g: "g = ''Cuisine'' \<or> g = ''NumberOfPeople'' \<or> g = ''DiningDate'' \<or> g = ''DiningTime'' \<or> g = ''Email''"
      using assms(2) unfolding c1 fields_after_simps by auto
    have ne: "g \<noteq> ''Location''"
      using g by auto
    show ?thesis
      using assms(1) unfolding c1 first_invalid_Some_iff by (simp add: field_error_upd ne)
  next
    assume c2: "f = ''Cuisine''"
    have g: "g = ''NumberOfPeople'' \<or> g = ''DiningDate'' \<or> g = ''DiningTime'' \<or> g = ''Email''"
      using assms(2) unfolding c2 fields_after_simps by auto
    have ne: "g \<noteq> ''Location''" "g \<noteq> ''Cuisine''"
      using g by auto
    show ?thesis
      using assms(1) unfolding c2 first_invalid_Some_iff by (simp add: field_error_upd ne)
  next
    assume c3: "f = ''NumberOfPeople''"
    have g: "g = ''DiningDate'' \<or> g = ''DiningTime'' \<or> g = ''Email''"
      using assms(2) unfolding c3 fields_after_simps by auto
    have ne: "g \<noteq> ''Location''" "g \<noteq> ''Cuisine''" "g \<noteq> ''NumberOfPeople''"
      using g by auto
    show ?thesis
      using assms(1) unfolding c3 first_invalid_Some_iff by (simp add: field_error_upd ne)
  next
    assume c4: "f = ''DiningDate''"
    have g: "g = ''DiningTime'' \<or> g = ''Email''"
      using assms(2) unfolding c4 fields_after_simps by auto
    have ne: "g \<noteq> ''Location''" "g \<noteq> ''Cuisine''" "g \<noteq> ''NumberOfPeople''" "g \<noteq> ''DiningDate''"
      using g by auto
    show ?thesis
      using assms(1) unfolding c4 first_invalid_Some_iff by (simp add: field_error_upd ne)
  next
    assume c5: "f = ''DiningTime''"
    have g: "g = ''Email''"
      using assms(2) unfolding c5 fields_after_simps by auto
    have ne: "g \<noteq> ''Location''" "g \<noteq> ''Cuisine''" "g \<noteq> ''NumberOfPeople''" "g \<noteq> ''DiningDate''" "g \<noteq> ''DiningTime''"
      using g by auto
    show ?thesis
      using assms(1) unfolding c5 first_invalid_Some_iff by (simp add: field_error_upd ne)
  next
    assume c6: "f = ''Email''"
    with assms(2) show ?thesis by (simp add: fields_after_simps)
  qed
qed

text \<open>The entry point hands a mid-dialog turn of the dining intent to the validation.\<close>

lemma lf1_handler_dialog:
  assumes "ev_intent_name ev = ''DiningSuggestionsIntent''"
    and "invocationSource ev = ''DialogCodeHook''"
  shows "lf1_handler w ev = (handleDialogValidation w ev (ev_slots ev), [])"
  using assms by (simp add: lf1_handler_def Let_def ret_def)

text \<open>
  C4. Mid-dialog, when some present field is invalid and \<open>f\<close> is the first such field
  in validation order, the response is an ElicitSlot naming \<open>f\<close>, with the message of
  \<open>f\<close>'s rule, the slot \<open>f\<close> set to null, every other slot as it came in, and the intent
  state InProgress. No later field has a say: whatever value a field after \<open>f\<close> is given,
  the same slot is elicited with the same message. For the dining intent in the dialog
  phase this response is what the entry point returns, and no command is issued.
\<close>

theorem first_invalid_field_elicited:
  assumes "first_invalid w (ev_slots ev) = Some f"
  shows "dialogAction_type (handleDialogValidation w ev (ev_slots ev)) = ElicitSlot
       \<and> slotToElicit (handleDialogValidation w ev (ev_slots ev)) = Some f
       \<and> messages (handleDialogValidation w ev (ev_slots ev))
           = [the (field_error w (ev_slots ev) f)]
       \<and> intent_slots (handleDialogValidation w ev (ev_slots ev)) f = Some NullSlot
       \<and> (\<forall>g. g \<noteq> f \<longrightarrow>
             intent_slots (handleDialogValidation w ev (ev_slots ev)) g = ev_slots ev g)
       \<and> intent_state (handleDialogValidation w ev (ev_slots ev)) = InProgress
       \<and> (\<forall>g \<in> set (fields_after f). \<forall>v.
             slotToElicit
               (handleDialogValidation w (ev\<lparr>ev_slots := (ev_slots ev)(g := v)\<rparr>)
                  ((ev_slots ev)(g := v))) = Some f
           \<and> messages
               (handleDialogValidation w (ev\<lparr>ev_slots := (ev_slots ev)(g := v)\<rparr>)
                  ((ev_slots ev)(g := v)))
               = messages (handleDialogValidation w ev (ev_slots ev)))
       \<and> (ev_intent_name ev = ''DiningSuggestionsIntent''
            \<and> invocationSource ev = ''DialogCodeHook'' \<longrightarrow>
            lf1_handler w ev = (handleDialogValidation w ev (ev_slots ev), []))"
proof -
  have r: "handleDialogValidation w ev (ev_slots ev)
             = buildElicitSlotResponse ev f (the (field_error w (ev_slots ev) f))"
    using assms by (simp add: handleDialogValidation_first_invalid)
  have later: "handleDialogValidation w ev' ((ev_slots ev)(g := v))
             = buildElicitSlotResponse ev' f (the (field_error w (ev_slots ev) f))"
    if "g \<in> set (fields_after f)" for g v ev'
    using first_invalid_later_field [OF assms that, of v]
    by (simp add: handleDialogValidation_first_invalid)
  show ?thesis
    unfolding r by (simp add: later lf1_handler_dialog r buildElicitSlotResponse_def Let_def)
qed

section \<open>Party size, date and time\<close>

lemma getSlotValue_nonempty: "getSlotValue sl k = Some s \<Longrightarrow> s \<noteq> []"
  by (auto simp: getSlotValue_def present_def split: option.splits slot.splits if_splits)

lemma slotToElicit_first_invalid:
  "slotToElicit (handleDialogValidation w ev sl) = first_invalid w sl"
  by (simp add: handleDialogValidation_first_invalid buildElicitSlotResponse_def
        buildDelegateResponse_def Let_def split: option.splits)

lemma messages_first_invalid:
  "first_invalid w sl = Some f \<Longrightarrow>
     messages (handleDialogValidation w ev sl) = [the (field_error w sl f)]"
  by (simp add: handleDialogValidation_first_invalid buildElicitSlotResponse_def Let_def)

text \<open>
  C5. The NumberOfPeople slot holds the decimal text of the integer \<open>n\<close>. The party-size
  rule accepts it exactly when \<open>1 \<le> n \<le> 20\<close>, and then NumberOfPeople is not elicited.
  When Location and Cuisine raise nothing, \<open>n < 1\<close> elicits NumberOfPeople with the
  "enter a number" message and \<open>n > 20\<close> elicits it with the "large party" message. Text
  that \<open>parseInt\<close> cannot read gets the "enter a number" message too, and the two messages
  differ.
\<close>

theorem party_size_accepted_iff:
  fixes n :: int
  assumes "getSlotValue (ev_slots ev) ''NumberOfPeople'' = Some (show_int n)"
  shows "(validate_NumberOfPeople (Some (show_int n)) = None \<longleftrightarrow> 1 \<le> n \<and> n \<le> 20)
       \<and> (1 \<le> n \<and> n \<le> 20 \<longrightarrow>
            slotToElicit (handleDialogValidation w ev (ev_slots ev)) \<noteq> Some ''NumberOfPeople'')
       \<and> (field_error w (ev_slots ev) ''Location'' = None
            \<and> field_error w (ev_slots ev) ''Cuisine'' = None \<longrightarrow>
            (n < 1 \<longrightarrow>
               slotToElicit (handleDialogValidation w ev (ev_slots ev)) = Some ''NumberOfPeople''
               \<and> messages (handleDialogValidation w ev (ev_slots ev)) = [msg_not_a_number])
            \<and> (20 < n \<longrightarrow>
               slotToElicit (handleDialogValidation w ev (ev_slots ev)) = Some ''NumberOfPeople''
               \<and> messages (handleDialogValidation w ev (ev_slots ev)) = [msg_large_party]))
       \<and> (\<forall>s. s \<noteq> [] \<and> parseInt s = None \<longrightarrow>
             validate_NumberOfPeople (Some s) = Some msg_not_a_number)
       \<and> msg_large_party \<noteq> msg_not_a_number"
proof -
  have fe: "field_error w (ev_slots ev) ''NumberOfPeople'' =
      (if n < 1 then Some msg_not_a_number else if n > 20 then Some msg_large_party else None)"
    using assms by (simp add: field_error_simps validate_NumberOfPeople_show_int)
  have a: "validate_NumberOfPeople (Some (show_int n)) = None \<longleftrightarrow> 1 \<le> n \<and> n \<le> 20"
    by (auto simp: validate_NumberOfPeople_show_int)
  have b: "slotToElicit (handleDialogValidation w ev (ev_slots ev)) \<noteq> Some ''NumberOfPeople''"
    if "1 \<le> n \<and> n \<le> 20"
    using that fe by (simp add: slotToElicit_first_invalid first_invalid_Some_iff)
  have c: "slotToElicit (handleDialogValidation w ev (ev_slots ev)) = Some ''NumberOfPeople''
           \<and> messages (handleDialogValidation w ev (ev_slots ev))
               = [the (field_error w (ev_slots ev) ''NumberOfPeople'')]"
    if "field_error w (ev_slots ev) ''Location'' = None"
      and "field_error w (ev_slots ev) ''Cuisine'' = None" and "n < 1 \<or> 20 < n"
  proof -
    have "first_invalid w (ev_slots ev) = Some ''NumberOfPeople''"
      using that fe by (auto simp: first_invalid_Some_iff)
    then show ?thesis
      by (simp add: slotToElicit_first_invalid messages_first_invalid)
  qed
  have d: "validate_NumberOfPeople (Some s) = Some msg_not_a_number"
    if "s \<noteq> [] \<and> parseInt s = None" for s
    using that by (simp add: validate_NumberOfPeople_def present_def)
  show ?thesis
    using a b c d fe msgs_differ by auto
qed

lemma setHours0_localMidnight: "setHours0 z t = localMidnight z (localDay z t)"
  by (simp add: setHours0_def localMidnight_def localDay_def)

lemma localMidnight_step:
  assumes "zone_days z"
  shows "localMidnight z D < localMidnight z (D + 1)"
proof -
  have "D * msPerDay \<le> D * msPerDay \<and> D * msPerDay < (D + 1) * msPerDay"
    by (simp add: msPerDay_def)
  with assms have "UTC z (D * msPerDay) < localMidnight z (D + 1)"
    unfolding zone_days_def by blast
  then show ?thesis by (simp add: localMidnight_def)
qed

lemma localMidnight_ahead:
  assumes "zone_days z"
  shows "localMidnight z a < localMidnight z (a + 1 + int k)"
proof (induction k)
  case 0
  show ?case using localMidnight_step [OF assms, of a] by simp
next
  case (Suc k)
  have "localMidnight z (a + 1 + int k) < localMidnight z (a + 1 + int k + 1)"
    by (rule localMidnight_step [OF assms])
  with Suc show ?case by (simp add: add.assoc)
qed

lemma localMidnight_less:
  assumes "zone_days z"
  shows "localMidnight z a < localMidnight z b \<longleftrightarrow> a < b"
proof
  assume "a < b"
  then have "b = a + 1 + int (nat (b - a - 1))" by simp
  then show "localMidnight z a < localMidnight z b"
    using localMidnight_ahead [OF assms, of a "nat (b - a - 1)"] by simp
next
  assume l: "localMidnight z a < localMidnight z b"
  show "a < b"
  proof (rule ccontr)
    assume "\<not> a < b"
    then have "a = b \<or> a = b + 1 + int (nat (a - b - 1))" by auto
    then have "localMidnight z b \<le> localMidnight z a"
    proof
      assume "a = b" then show ?thesis by simp
    next
      assume "a = b + 1 + int (nat (a - b - 1))"
      then show ?thesis
        using localMidnight_ahead [OF assms, of b "nat (a - b - 1)"] by simp
    qed
    with l show False by simp
  qed
qed

lemma localMidnight_le:
  assumes "zone_days z"
  shows "localMidnight z a \<le> localMidnight z b \<longleftrightarrow> a \<le> b"
  using localMidnight_less [OF assms, of b a] by auto

text \<open>Ninety days after today's local midnight lies on local day \<open>today + 90\<close>.\<close>

lemma maxFuture_day:
  assumes "zone_days z"
  shows "localMidnight z (T + 90) \<le> setDate_plus z (localMidnight z T) 90
       \<and> setDate_plus z (localMidnight z T) 90 < localMidnight z (T + 91)"
proof -
  have "localMidnight z T \<le> localMidnight z T \<and> localMidnight z T < localMidnight z (T + 1)"
    using localMidnight_step [OF assms, of T] by simp
  with assms have l: "T * msPerDay \<le> LocalTime z (localMidnight z T)
      \<and> LocalTime z (localMidnight z T) < (T + 1) * msPerDay"
    unfolding zone_days_def by blast
  let ?lt = "LocalTime z (localMidnight z T) + 90 * msPerDay"
  have "(T + 90) * msPerDay \<le> ?lt \<and> ?lt < (T + 90 + 1) * msPerDay"
    using l by (simp add: algebra_simps)
  with assms have "localMidnight z (T + 90) \<le> UTC z ?lt \<and> UTC z ?lt < localMidnight z (T + 90 + 1)"
    unfolding zone_days_def by blast
  then show ?thesis by (simp add: setDate_plus_def add.commute)
qed

lemma validate_DiningDate_parsed:
  assumes "zone_days (LocalTZA w)" and "d \<noteq> []"
    and "Date_parse w (d @ ''T00:00:00'') = Some (localMidnight (LocalTZA w) D)"
  shows "validate_DiningDate w (Some d) = None
           \<longleftrightarrow> localDay (LocalTZA w) (now w) \<le> D \<and> D \<le> localDay (LocalTZA w) (now w) + 90"
proof -
  let ?z = "LocalTZA w"
  let ?T = "localDay ?z (now w)"
  note m = maxFuture_day [OF assms(1), of ?T]
  have past: "localMidnight ?z D < localMidnight ?z ?T \<longleftrightarrow> D < ?T"
    by (rule localMidnight_less [OF assms(1)])
  have far: "setDate_plus ?z (localMidnight ?z ?T) 90 < localMidnight ?z D \<longleftrightarrow> ?T + 90 < D"
  proof
    assume "setDate_plus ?z (localMidnight ?z ?T) 90 < localMidnight ?z D"
    with m have "localMidnight ?z (?T + 90) < localMidnight ?z D" by linarith
    then show "?T + 90 < D" using localMidnight_less [OF assms(1)] by blast
  next
    assume "?T + 90 < D"
    then have "?T + 91 \<le> D" by simp
    then have "localMidnight ?z (?T + 91) \<le> localMidnight ?z D"
      using localMidnight_le [OF assms(1)] by blast
    with m show "setDate_plus ?z (localMidnight ?z ?T) 90 < localMidnight ?z D" by linarith
  qed
  show ?thesis
    using assms(2,3) past far
    by (auto simp: validate_DiningDate_def present_def Let_def setHours0_localMidnight)
qed

lemma validate_DiningDate_unparsable:
  assumes "d \<noteq> []" and "Date_parse w (d @ ''T00:00:00'') = None"
  shows "validate_DiningDate w (Some d) \<noteq> None"
  using assms by (simp add: validate_DiningDate_def present_def Let_def)

lemma zone_days_utc: "zone_days utc_zone"
  by (simp add: zone_days_def localMidnight_def UTC_def LocalTime_def utc_zone_def)


lemma new_york_midnight:
  "localMidnight new_york_2026 D
     = D * 86400000 + (if 20521 \<le> D \<and> D \<le> 20758 then 14400000 else 18000000)"
  by (auto simp: localMidnight_def UTC_def new_york_2026_def msPerDay_def)

lemma new_york_UTC_in_day:
  assumes "D * 86400000 \<le> lt" and "lt < (D + 1) * 86400000"
  shows "localMidnight new_york_2026 D \<le> UTC new_york_2026 lt
       \<and> UTC new_york_2026 lt < localMidnight new_york_2026 (D + 1)"
  using assms unfolding new_york_midnight
  by (auto simp: UTC_def new_york_2026_def split: if_splits)

lemma new_york_LocalTime_in_day:
  assumes "localMidnight new_york_2026 D \<le> t" and "t < localMidnight new_york_2026 (D + 1)"
  shows "D * 86400000 \<le> LocalTime new_york_2026 t
       \<and> LocalTime new_york_2026 t < (D + 1) * 86400000"
  using assms unfolding new_york_midnight
  by (auto simp: LocalTime_def new_york_2026_def split: if_splits)

lemma zone_days_new_york: "zone_days new_york_2026"
  unfolding zone_days_def msPerDay_def
  using new_york_UTC_in_day new_york_LocalTime_in_day by blast

text \<open>
  C6. The DiningDate slot holds \<open>d\<close>. In a time zone that keeps its local days in order
  (clock changes included), if the runtime parses \<open>d + "T00:00:00"\<close> as local midnight of
  the calendar day \<open>D\<close>, the date rule accepts exactly when \<open>today \<le> D \<le> today + 90\<close>,
  with \<open>today\<close> the local calendar day of the clock; then DiningDate is not elicited, and
  outside that range it is elicited as soon as the earlier fields raise nothing. If the
  runtime cannot parse it, the rule rejects.
\<close>

theorem dining_date_accepted_iff:
  assumes "getSlotValue (ev_slots ev) ''DiningDate'' = Some d"
  shows "(zone_days (LocalTZA w) \<longrightarrow>
          (\<forall>D. Date_parse w (d @ ''T00:00:00'') = Some (localMidnight (LocalTZA w) D) \<longrightarrow>
            (validate_DiningDate w (Some d) = None
               \<longleftrightarrow> localDay (LocalTZA w) (now w) \<le> D
                   \<and> D \<le> localDay (LocalTZA w) (now w) + 90)
          \<and> (localDay (LocalTZA w) (now w) \<le> D \<and> D \<le> localDay (LocalTZA w) (now w) + 90
               \<longrightarrow> slotToElicit (handleDialogValidation w ev (ev_slots ev)) \<noteq> Some ''DiningDate'')
          \<and> (field_error w (ev_slots ev) ''Location'' = None
               \<and> field_error w (ev_slots ev) ''Cuisine'' = None
               \<and> field_error w (ev_slots ev) ''NumberOfPeople'' = None
               \<and> \<not> (localDay (LocalTZA w) (now w) \<le> D
                      \<and> D \<le> localDay (LocalTZA w) (now w) + 90)
               \<longrightarrow> slotToElicit (handleDialogValidation w ev (ev_slots ev)) = Some ''DiningDate'')))
       \<and> (Date_parse w (d @ ''T00:00:00'') = None \<longrightarrow>
            validate_DiningDate w (Some d) \<noteq> None
          \<and> (field_error w (ev_slots ev) ''Location'' = None
               \<and> field_error w (ev_slots ev) ''Cuisine'' = None
               \<and> field_error w (ev_slots ev) ''NumberOfPeople'' = None
               \<longrightarrow> slotToElicit (handleDialogValidation w ev (ev_slots ev)) = Some ''DiningDate''))"
proof -
  have ne: "d \<noteq> []" using assms by (rule getSlotValue_nonempty)
  have fe: "field_error w (ev_slots ev) ''DiningDate'' = validate_DiningDate w (Some d)"
    using assms by (simp add: field_error_simps)
  have parsed: "validate_DiningDate w (Some d) = None
      \<longleftrightarrow> localDay (LocalTZA w) (now w) \<le> D \<and> D \<le> localDay (LocalTZA w) (now w) + 90"
    if "zone_days (LocalTZA w)"
      and "Date_parse w (d @ ''T00:00:00'') = Some (localMidnight (LocalTZA w) D)" for D
    using validate_DiningDate_parsed [OF that(1) ne that(2)] .
  show ?thesis
    using parsed validate_DiningDate_unparsable [OF ne, of w]
    by (auto simp: slotToElicit_first_invalid first_invalid_Some_iff fe)
qed

lemma split_colon_time:
  assumes "is_digit h1" "is_digit h2" "is_digit m1" "is_digit m2"
  shows "split CHR '':'' [h1, h2, CHR '':'', m1, m2] = [[h1, h2], [m1, m2]]"
  using assms is_digit_not_sign by simp

text \<open>
  C10. A DiningTime of two digits, a colon and two digits, with the hour between 06 and 23
  and any minute digits whatever, is accepted and DiningTime is not elicited, whenever
  the DiningDate slot is absent or differs from the date the time rule takes as today.
\<close>

theorem minutes_not_range_checked:
  assumes "is_digit h1" and "is_digit h2" and "is_digit m1" and "is_digit m2"
    and "6 \<le> digits_value [h1, h2]" and "digits_value [h1, h2] \<le> 23"
    and "getSlotValue (ev_slots ev) ''DiningTime'' = Some [h1, h2, CHR '':'', m1, m2]"
    and "getSlotValue (ev_slots ev) ''DiningDate'' = None
         \<or> getSlotValue (ev_slots ev) ''DiningDate'' \<noteq> Some (todayStr w)"
  shows "validate_DiningTime w (getSlotValue (ev_slots ev) ''DiningDate'')
           (Some [h1, h2, CHR '':'', m1, m2]) = None
       \<and> slotToElicit (handleDialogValidation w ev (ev_slots ev)) \<noteq> Some ''DiningTime''"
proof -
  let ?t = "[h1, h2, CHR '':'', m1, m2]"
  have re: "timeRegex_test ?t" using assms(1-4) by (simp add: timeRegex_test_def)
  have sp: "split CHR '':'' ?t = [[h1, h2], [m1, m2]]"
    using assms(1-4) by (rule split_colon_time)
  have date: "present (getSlotValue (ev_slots ev) ''DiningDate'') \<Longrightarrow>
      the (getSlotValue (ev_slots ev) ''DiningDate'') \<noteq> hd (split CHR ''T'' (toISOString (now w)))"
    using assms(8) by (auto simp: present_def todayStr_def split: option.splits)
  have v: "validate_DiningTime w (getSlotValue (ev_slots ev) ''DiningDate'') (Some ?t) = None"
    using assms(5,6) re date
    by (simp add: validate_DiningTime_def present_def sp Let_def del: split.simps)
  then have "field_error w (ev_slots ev) ''DiningTime'' = None"
    using assms(7) by (simp add: field_error_simps)
  then show ?thesis
    using v by (simp add: slotToElicit_first_invalid first_invalid_Some_iff)
qed

section \<open>The preference write cannot fail the request\<close>

lemma saveUserState_trace:
  "\<exists>i. saveUserState w email location cuisine numberOfPeople diningDate diningTime
         = (Inr (), [PutItem i])"
proof -
  let ?item = "\<lparr>us_Email = of_nullable email,
                 us_Location = location,
                 us_Cuisine = of_nullable cuisine,
                 us_NumberOfPeople = Str (template_nullable numberOfPeople),
                 us_DiningDate = of_nullable diningDate,
                 us_DiningTime = of_nullable diningTime,
                 us_LastSearchTimestamp = toISOString (now w)\<rparr>"
  have "saveUserState w email location cuisine numberOfPeople diningDate diningTime
          = (Inr (), [PutItem ?item])"
    by (cases "dynamo_put w ?item")
       (simp_all add: saveUserState_def try_catch_def issue_def ret_def Let_def)
  then show ?thesis by blast
qed

lemma handleFulfillment_sent:
  assumes "getSlotValue sl ''Cuisine'' = Some c"
    and "lf1_SQS_QUEUE_URL w = Some u" and "u \<noteq> []"
  shows "\<exists>i. handleFulfillment w ev sl =
     (case sqs_send w (queued_message sl) of
        Inl e \<Rightarrow>
          (Inr (buildFulfillmentResponse ev
             (''I'm sorry, something went wrong while processing your request. ''
              @ ''Please try again in a moment.'')),
           [SendMessage u (queued_message sl)])
      | Inr x \<Rightarrow>
          (Inr (confirmation ev sl), [SendMessage u (queued_message sl), PutItem i]))"
proof -
  obtain i where s: "saveUserState w (getSlotValue sl ''Email'')
      (js_or (normalizeLocation (getSlotValue sl ''Location''))
         (of_nullable (getSlotValue sl ''Location'')))
      (Some c) (getSlotValue sl ''NumberOfPeople'') (getSlotValue sl ''DiningDate'')
      (getSlotValue sl ''DiningTime'') = (Inr (), [PutItem i])"
    using saveUserState_trace by blast
  have "handleFulfillment w ev sl =
     (case sqs_send w (queued_message sl) of
        Inl e \<Rightarrow>
          (Inr (buildFulfillmentResponse ev
             (''I'm sorry, something went wrong while processing your request. ''
              @ ''Please try again in a moment.'')),
           [SendMessage u (queued_message sl)])
      | Inr x \<Rightarrow>
          (Inr (confirmation ev sl), [SendMessage u (queued_message sl), PutItem i]))"
    using assms s
    by (simp add: handleFulfillment_def Let_def try_catch_def io_bind_def issue_def ret_def
          confirmation_def queued_message_def split: sum.splits)
  then show ?thesis by blast
qed

lemma handleFulfillment_sent_only:
  assumes "SendMessage url b \<in> set (snd (handleFulfillment w ev sl))"
  shows "(\<exists>c. getSlotValue sl ''Cuisine'' = Some c)
       \<and> lf1_SQS_QUEUE_URL w = Some url \<and> url \<noteq> [] \<and> b = queued_message sl"
proof -
  obtain c where c: "getSlotValue sl ''Cuisine'' = Some c"
    using assms
    by (cases "getSlotValue sl ''Cuisine''") (simp_all add: handleFulfillment_def Let_def throw_def)
  obtain u where u: "lf1_SQS_QUEUE_URL w = Some u" "u \<noteq> []"
    using assms c
    by (cases "lf1_SQS_QUEUE_URL w")
       (auto simp: handleFulfillment_def Let_def try_catch_def ret_def split: if_splits)
  obtain i where "handleFulfillment w ev sl =
     (case sqs_send w (queued_message sl) of
        Inl e \<Rightarrow>
          (Inr (buildFulfillmentResponse ev
             (''I'm sorry, something went wrong while processing your request. ''
              @ ''Please try again in a moment.'')),
           [SendMessage u (queued_message sl)])
      | Inr x \<Rightarrow>
          (Inr (confirmation ev sl), [SendMessage u (queued_message sl), PutItem i]))"
    using handleFulfillment_sent [OF c u] by blast
  then show ?thesis
    using assms c u by (cases "sqs_send w (queued_message sl)") auto
qed

text \<open>
  C9. Request complete: if the handler handed the request to the queue and the queue took
  it, the response is the confirmation (a Close with state Fulfilled), whatever the
  preference store does with the write, and the entry point returns that same
  confirmation.
\<close>

theorem preference_failure_swallowed:
  assumes "SendMessage url b \<in> set (snd (handleFulfillment w ev sl))"
    and "sqs_send w b = Inr ()"
  shows "(\<forall>p. fst (handleFulfillment (w\<lparr>dynamo_put := p\<rparr>) ev sl) = Inr (confirmation ev sl))
       \<and> dialogAction_type (confirmation ev sl) = Close
       \<and> intent_state (confirmation ev sl) = Fulfilled
       \<and> (ev_intent_name ev = ''DiningSuggestionsIntent''
            \<and> invocationSource ev = ''FulfillmentCodeHook'' \<and> sl = ev_slots ev \<longrightarrow>
            (\<forall>p. fst (lf1_handler (w\<lparr>dynamo_put := p\<rparr>) ev) = confirmation ev sl))"
proof -
  from handleFulfillment_sent_only [OF assms(1)]
  obtain c where c: "getSlotValue sl ''Cuisine'' = Some c"
    and u: "lf1_SQS_QUEUE_URL w = Some url" "url \<noteq> []" and b: "b = queued_message sl"
    by blast
  have run: "fst (handleFulfillment (w\<lparr>dynamo_put := p\<rparr>) ev sl) = Inr (confirmation ev sl)" for p
  proof -
    have u': "lf1_SQS_QUEUE_URL (w\<lparr>dynamo_put := p\<rparr>) = Some url" using u by simp
    have s': "sqs_send (w\<lparr>dynamo_put := p\<rparr>) (queued_message sl) = Inr ()"
      using assms(2) b by simp
    from handleFulfillment_sent [OF c u' u(2), of ev] s'
    show ?thesis by auto
  qed
  have hand: "fst (lf1_handler (w\<lparr>dynamo_put := p\<rparr>) ev) = confirmation ev sl"
    if "ev_intent_name ev = ''DiningSuggestionsIntent''"
      and "invocationSource ev = ''FulfillmentCodeHook''" and "sl = ev_slots ev" for p
    using that run [of p]
    by (cases "handleFulfillment (w\<lparr>dynamo_put := p\<rparr>) ev (ev_slots ev)")
       (simp add: lf1_handler_def Let_def split: sum.splits)
  show ?thesis
    using run hand by (simp add: confirmation_def buildFulfillmentResponse_def)
qed

section \<open>Runs on the sample worlds\<close>

lemma gsv_paris:
  "getSlotValue paris_slots ''Location'' = Some ''Paris''"
  "getSlotValue paris_slots ''Cuisine'' = Some ''Greek''"
  by (simp_all add: getSlotValue_def paris_slots_def filled_def present_def)

lemma paris_rejected: "validate_Location (Some ''Paris'') \<noteq> None"
  by code_simp

theorem first_invalid_field_elicited_witness:
  "slotToElicit (handleDialogValidation utc_world (sample_event paris_slots) paris_slots)
     = Some ''Location''
   \<and> intent_slots (handleDialogValidation utc_world (sample_event paris_slots) paris_slots)
        ''Location'' = Some NullSlot
   \<and> intent_slots (handleDialogValidation utc_world (sample_event paris_slots) paris_slots)
        ''Cuisine'' = Some (filled ''Greek'')
   \<and> intent_state (handleDialogValidation utc_world (sample_event paris_slots) paris_slots)
        = InProgress"
proof -
  have fi: "first_invalid utc_world (ev_slots (sample_event paris_slots)) = Some ''Location''"
    using paris_rejected
    by (simp add: first_invalid_Some_iff field_error_simps sample_event_def gsv_paris)
  have c: "ev_slots (sample_event paris_slots) ''Cuisine'' = Some (filled ''Greek'')"
    by (simp add: sample_event_def paris_slots_def)
  have s: "ev_slots (sample_event paris_slots) = paris_slots"
    by (simp add: sample_event_def)
  from first_invalid_field_elicited [OF fi] c
  show ?thesis unfolding s by simp
qed

lemma show_int_21: "show_int 21 = ''21''"
  by code_simp

theorem party_size_accepted_iff_witness:
  "slotToElicit (handleDialogValidation utc_world (sample_event large_party_slots)
     large_party_slots) = Some ''NumberOfPeople''
   \<and> messages (handleDialogValidation utc_world (sample_event large_party_slots)
     large_party_slots) = [msg_large_party]"
proof -
  have s: "ev_slots (sample_event large_party_slots) = large_party_slots"
    by (simp add: sample_event_def)
  have g: "getSlotValue (ev_slots (sample_event large_party_slots)) ''NumberOfPeople''
             = Some (show_int 21)"
    unfolding s by (simp add: show_int_21 getSlotValue_def large_party_slots_def filled_def present_def)
  have e: "field_error utc_world large_party_slots ''Location'' = None"
          "field_error utc_world large_party_slots ''Cuisine'' = None"
    by (simp_all add: field_error_simps getSlotValue_def large_party_slots_def
          validate_Location_def validate_Cuisine_def present_def)
  from party_size_accepted_iff [OF g, of utc_world] e
  show ?thesis unfolding s by simp
qed


lemma september_today:
  "localDay (LocalTZA new_york_september_world) (now new_york_september_world) = 20697"
  by (simp add: new_york_september_world_def localDay_def LocalTime_def new_york_2026_def
        msPerDay_def)

text \<open>Ninety days on, across the change of the clock on 2026-11-01, is still accepted.\<close>

theorem dining_date_accepted_iff_witness:
  "localDay (LocalTZA new_york_september_world) (now new_york_september_world) + 90 = 20787
   \<and> Date_parse new_york_september_world (''2026-11-30'' @ ''T00:00:00'')
       = Some (localMidnight (LocalTZA new_york_september_world) 20787)
   \<and> validate_DiningDate new_york_september_world (Some ''2026-11-30'') = None
   \<and> slotToElicit
        (handleDialogValidation new_york_september_world (sample_event ninety_days_slots)
           ninety_days_slots) \<noteq> Some ''DiningDate''"
proof -
  have s: "ev_slots (sample_event ninety_days_slots) = ninety_days_slots"
    by (simp add: sample_event_def)
  have g: "getSlotValue (ev_slots (sample_event ninety_days_slots)) ''DiningDate''
             = Some ''2026-11-30''"
    unfolding s by (simp add: getSlotValue_def ninety_days_slots_def filled_def present_def)
  have z: "zone_days (LocalTZA new_york_september_world)"
    using zone_days_new_york by (simp add: new_york_september_world_def)
  have p: "Date_parse new_york_september_world (''2026-11-30'' @ ''T00:00:00'')
             = Some (localMidnight (LocalTZA new_york_september_world) 20787)"
    by (simp add: new_york_september_world_def new_york_midnight)
  from dining_date_accepted_iff [OF g, of new_york_september_world] z p september_today
  show ?thesis unfolding s by simp
qed

lemma utc_world_todayStr: "todayStr utc_world = ''2026-02-21''"
  by code_simp

theorem minutes_not_range_checked_witness:
  "validate_DiningTime utc_world None (Some ''19:99'') = None
   \<and> slotToElicit (handleDialogValidation utc_world (sample_event late_minutes_slots)
        late_minutes_slots) \<noteq> Some ''DiningTime''"
proof -
  have s: "ev_slots (sample_event late_minutes_slots) = late_minutes_slots"
    by (simp add: sample_event_def)
  have d: "is_digit CHR ''1''" "is_digit CHR ''9''"
    by (simp_all add: is_digit_def)
  have v: "6 \<le> digits_value [CHR ''1'', CHR ''9'']" "digits_value [CHR ''1'', CHR ''9''] \<le> 23"
    by (simp_all add: digits_value_def)
  have t: "getSlotValue (ev_slots (sample_event late_minutes_slots)) ''DiningTime''
             = Some [CHR ''1'', CHR ''9'', CHR '':'', CHR ''9'', CHR ''9'']"
    unfolding s by (simp add: getSlotValue_def late_minutes_slots_def filled_def present_def)
  have n: "getSlotValue (ev_slots (sample_event late_minutes_slots)) ''DiningDate'' = None"
    unfolding s by (simp add: getSlotValue_def late_minutes_slots_def)
  have a: "getSlotValue (ev_slots (sample_event late_minutes_slots)) ''DiningDate'' = None
         \<or> getSlotValue (ev_slots (sample_event late_minutes_slots)) ''DiningDate''
              \<noteq> Some (todayStr utc_world)"
    using n by simp
  from minutes_not_range_checked [OF d(1) d(2) d(2) d(2) v t a] n
  show ?thesis unfolding s by simp
qed

lemma complete_run:
  "snd (handleFulfillment utc_world (fulfillment_event complete_slots) complete_slots)
     = [SendMessage ''https://sqs/q1'' (queued_message complete_slots),
        PutItem \<lparr>us_Email = Str ''ann@example.com'', us_Location = Str ''manhattan'',
                 us_Cuisine = Str ''Thai'', us_NumberOfPeople = Str ''2'',
                 us_DiningDate = Str ''2026-02-22'', us_DiningTime = Str ''19:30'',
                 us_LastSearchTimestamp = ''2026-02-21T20:00:00.000Z''\<rparr>]"
  by code_simp

theorem preference_failure_swallowed_witness:
  "dynamo_put utc_world = (\<lambda>i. Inl (Error ''Requested resource not found''))
   \<and> fst (lf1_handler utc_world (fulfillment_event complete_slots))
       = confirmation (fulfillment_event complete_slots) complete_slots
   \<and> messages (confirmation (fulfillment_event complete_slots) complete_slots)
       = [''You're all set! Expect my Thai restaurant suggestions for 2 people on 2026-02-22 around 19:30 in your inbox at ann@example.com shortly. Have a great day!'']"
proof -
  have m: "SendMessage ''https://sqs/q1'' (queued_message complete_slots)
             \<in> set (snd (handleFulfillment utc_world (fulfillment_event complete_slots)
                            complete_slots))"
    by (simp add: complete_run)
  have q: "sqs_send utc_world (queued_message complete_slots) = Inr ()"
    by (simp add: utc_world_def)
  have w: "utc_world\<lparr>dynamo_put := \<lambda>i. Inl (Error ''Requested resource not found'')\<rparr> = utc_world"
    by (simp add: utc_world_def)
  have e: "ev_intent_name (fulfillment_event complete_slots) = ''DiningSuggestionsIntent''"
    "invocationSource (fulfillment_event complete_slots) = ''FulfillmentCodeHook''"
    "complete_slots = ev_slots (fulfillment_event complete_slots)"
    by (simp_all add: fulfillment_event_def)
  have msg: "messages (confirmation (fulfillment_event complete_slots) complete_slots)
       = [''You're all set! Expect my Thai restaurant suggestions for 2 people on 2026-02-22 around 19:30 in your inbox at ann@example.com shortly. Have a great day!'']"
    by code_simp
  have p: "dynamo_put utc_world = (\<lambda>i. Inl (Error ''Requested resource not found''))"
    by (simp add: utc_world_def)
  from preference_failure_swallowed [OF m q] e w msg p
  show ?thesis by metis
qed

section \<open>Where the rules let an invalid value through\<close>

text \<open>What the time rule does reject, in the terms of the code: \<open>today\<close> is the UTC date
  of the clock, the hour and the minute are local.\<close>

lemma validate_DiningTime_rejects:
  assumes "t \<noteq> []"
  shows "\<not> timeRegex_test t \<Longrightarrow> validate_DiningTime w d (Some t) \<noteq> None"
    and "timeRegex_test t \<Longrightarrow>
           int (map digits_value (split CHR '':'' t) ! 0) < 6
           \<or> 23 < int (map digits_value (split CHR '':'' t) ! 0) \<Longrightarrow>
           validate_DiningTime w d (Some t) \<noteq> None"
    and "timeRegex_test t \<Longrightarrow> d = Some (todayStr w) \<Longrightarrow> todayStr w \<noteq> [] \<Longrightarrow>
           int (map digits_value (split CHR '':'' t) ! 0) < getHours (LocalTZA w) (now w)
           \<or> (int (map digits_value (split CHR '':'' t) ! 0) = getHours (LocalTZA w) (now w)
               \<and> int (map digits_value (split CHR '':'' t) ! 1)
                     \<le> getMinutes (LocalTZA w) (now w)) \<Longrightarrow>
           validate_DiningTime w d (Some t) \<noteq> None"
  using assms
  by (simp_all add: validate_DiningTime_def present_def todayStr_def Let_def del: split.simps)

lemma normalizeLocation_aliases:
  "normalizeLocation (Some ''new york'') = Str ''manhattan''"
  "normalizeLocation (Some ''NYC'') = Str ''manhattan''"
  "normalizeLocation (Some ''ny'') = Str ''manhattan''"
  "normalizeLocation (Some ''manhattan'') = Str ''manhattan''"
  "normalizeLocation (Some ''new york city'') = Str ''manhattan''"
  "normalizeLocation (Some ''Brooklyn'') = Str ''brooklyn''"
  "normalizeLocation (Some ''queens'') = Str ''queens''"
  "normalizeLocation (Some ''bronx'') = Str ''bronx''"
  "normalizeLocation (Some ''the bronx'') = Str ''bronx''"
  "normalizeLocation (Some ''  Staten Island '') = Str ''staten island''"
  "normalizeLocation (Some ''Paris'') = Null"
  by code_simp+

lemma lower_char_not_upper: "\<not> is_upper (lower_char c)"
  by (auto simp: lower_char_def is_upper_def)

lemma set_trim: "set (trim s) \<subseteq> set s"
proof
  fix x assume "x \<in> set (trim s)"
  then have "x \<in> set (dropWhile is_space (rev (dropWhile is_space s)))"
    by (simp add: trim_def)
  then have "x \<in> set (rev (dropWhile is_space s))" by (rule set_dropWhileD)
  then have "x \<in> set (dropWhile is_space s)" by simp
  then show "x \<in> set s" by (rule set_dropWhileD)
qed

lemma key_not_upper: "c \<in> set (trim (toLowerCase r)) \<Longrightarrow> \<not> is_upper c"
  using set_trim [of "toLowerCase r"] lower_char_not_upper
  by (auto simp: toLowerCase_def)

lemma inherited_lower_case_names:
  assumes "key \<in> set Object_prototype" and "\<forall>c \<in> set key. \<not> is_upper c"
  shows "key = ''constructor'' \<or> key = ''__proto__''"
proof -
  have "key = ''constructor'' \<or> key = ''__defineGetter__'' \<or> key = ''__defineSetter__''
      \<or> key = ''hasOwnProperty'' \<or> key = ''__lookupGetter__'' \<or> key = ''__lookupSetter__''
      \<or> key = ''isPrototypeOf'' \<or> key = ''propertyIsEnumerable'' \<or> key = ''toString''
      \<or> key = ''valueOf'' \<or> key = ''__proto__'' \<or> key = ''toLocaleString''"
    using assms(1) by (simp add: Object_prototype_def)
  moreover have "is_upper CHR ''G''" "is_upper CHR ''S''" "is_upper CHR ''O''" "is_upper CHR ''P''"
    "is_upper CHR ''I''" "is_upper CHR ''E''" "is_upper CHR ''L''"
    by (simp_all add: is_upper_def)
  ultimately show ?thesis
    using assms(2) by (elim disjE) simp_all
qed

text \<open>What the lookup does on every non-empty string.\<close>

lemma normalizeLocation_cases:
  assumes "r \<noteq> []"
  shows "normalizeLocation (Some r) =
     (case map_of LOCATION_ALIASES (trim (toLowerCase r)) of
        Some v \<Rightarrow> Str v
      | None \<Rightarrow>
          if trim (toLowerCase r) = ''constructor'' \<or> trim (toLowerCase r) = ''__proto__''
          then Inherited (trim (toLowerCase r)) else Null)"
proof (cases "map_of LOCATION_ALIASES (trim (toLowerCase r))")
  case None
  have "trim (toLowerCase r) \<in> set Object_prototype
          \<longleftrightarrow> trim (toLowerCase r) = ''constructor'' \<or> trim (toLowerCase r) = ''__proto__''"
    using inherited_lower_case_names [of "trim (toLowerCase r)"] key_not_upper [of _ r]
    by (auto simp: Object_prototype_def)
  then show ?thesis
    using assms None by (simp add: normalizeLocation_def get_property_def js_or_def Let_def)
next
  case (Some v)
  then have "(trim (toLowerCase r), v) \<in> set LOCATION_ALIASES" by (rule map_of_SomeD)
  then have "v \<noteq> []" by (auto simp: LOCATION_ALIASES_def)
  then show ?thesis
    using assms Some by (simp add: normalizeLocation_def get_property_def js_or_def Let_def)
qed

text \<open>
  C8. The location rule is meant to reject every string that is not a key of the alias
  table. The string "constructor" is not a key of the table, yet the lookup finds the
  member of that name which the table inherits as an object, the result is truthy, the
  location rule raises nothing, and a dialog turn whose only slot is that location is
  delegated instead of eliciting Location.
\<close>

theorem inherited_member_accepted_as_location:
  "map_of LOCATION_ALIASES ''constructor'' = None
   \<and> normalizeLocation (Some ''constructor'') = Inherited ''constructor''
   \<and> validate_Location (Some ''constructor'') = None
   \<and> getSlotValue constructor_slots ''Location'' = Some ''constructor''
   \<and> dialogAction_type
       (handleDialogValidation utc_world (sample_event constructor_slots) constructor_slots)
       = Delegate"
  by code_simp

text \<open>
  C7. The time rule is meant to reject, for a request dated today, a time that is not later
  than the wall clock. On a runtime five hours west of UTC, at 20:00 local time on
  2026-02-21, the date rule takes 2026-02-21 as today and accepts it; the time rule takes
  the UTC date 2026-02-22 as today, finds the slot different, skips the comparison with
  the local hour and minute, and accepts 19:30. The turn is delegated.
\<close>

theorem past_time_accepted_west_of_utc:
  "localDay (LocalTZA new_york_world) (now new_york_world) = 20505
   \<and> Date_parse new_york_world (''2026-02-21'' @ ''T00:00:00'')
       = Some (localMidnight (LocalTZA new_york_world) 20505)
   \<and> validate_DiningDate new_york_world (Some ''2026-02-21'') = None
   \<and> getHours (LocalTZA new_york_world) (now new_york_world) = 20
   \<and> getMinutes (LocalTZA new_york_world) (now new_york_world) = 0
   \<and> todayStr new_york_world = ''2026-02-22''
   \<and> validate_DiningTime new_york_world (Some ''2026-02-21'') (Some ''19:30'') = None
   \<and> dialogAction_type
       (handleDialogValidation new_york_world (sample_event past_time_slots) past_time_slots)
       = Delegate"
  by code_simp

lemma civil_20505: "civil_from_days 20505 = (2026, 2, 21)"
  by code_simp

end
